theory Spec2Isabelle
  imports Complex_Main
begin

section \<open>Graphene.foundation.js: regions, nodes and the evolution step\<close>

text \<open>
  A shallow embedding of \<^verbatim>\<open>src/Graphene.foundation.js\<close>.

  Modelling decisions, fixed for the whole development:
  \<^item> a JavaScript number is a \<open>jsnum\<close>: a finite real, \<open>+Infinity\<close>, \<open>-Infinity\<close> or \<open>NaN\<close>.
    A finite result is the exact real (rounding and the sign of zero are not
    modelled); a result of magnitude \<open>2 ^ 1024 - 2 ^ 970\<close> or more overflows to an
    infinity, and \<open>NaN\<close> arises and spreads as in IEEE 754;
  \<^item> the three methods of a region are given twice: on JavaScript numbers, as the
    step calls them (suffix \<open>N\<close>), and on exact reals, under the source's names, for
    the claims that are about the formula a method evaluates;
  \<^item> an object is a record of its own properties plus, for a node, the prototype it
    was created with (\<open>proto\<close>): methods live on the prototype, and an object literal
    or a spread copy has the plain \<open>Object\<close> prototype;
  \<^item> arrays that the code mutates in place (\<open>incubationHistory\<close>, \<open>history\<close>) live in
    a store and the node holds their address, so that two objects holding the same
    address share the array, as the shallow copy of the source does. The one field of
    a region that is assigned after construction, \<open>meanTheta\<close>, lives in the store
    under the region's id (ids name regions uniquely); the rest of a region is
    immutable and is a value;
  \<^item> every call of \<^verbatim>\<open>Math.random()\<close> and of \<^verbatim>\<open>Date.now()\<close> is an explicit input
    (the record \<open>draws\<close>);
  \<^item> an exception is a value: the step returns \<open>error + node\<close> together with the
    store as the code left it.
\<close>

subsection \<open>JavaScript numbers\<close>

text \<open>\<open>ovf\<close> is the result of an arithmetic operation whose exact value is \<open>r\<close>;
  \<open>infOf s\<close> is the infinity of sign \<open>s\<close>, and \<open>NaN\<close> for \<open>s = 0\<close> (as in \<open>0 * Infinity\<close>).\<close>

datatype jsnum = NaN | NInf | Fin real | PInf

definition overflowAt :: real where
  "overflowAt = 2 ^ 1024 - 2 ^ 970"

definition ovf :: "real \<Rightarrow> jsnum" where
  "ovf r = (if overflowAt \<le> r then PInf else if r \<le> - overflowAt then NInf else Fin r)"

definition infOf :: "real \<Rightarrow> jsnum" where
  "infOf s = (if 0 < s then PInf else if s < 0 then NInf else NaN)"

fun signOf :: "jsnum \<Rightarrow> real" where
  "signOf NaN = 0"
| "signOf NInf = - 1"
| "signOf (Fin a) = (if a < 0 then - 1 else if a = 0 then 0 else 1)"
| "signOf PInf = 1"

text \<open>The operators \<^verbatim>\<open>+\<close>, unary and binary \<^verbatim>\<open>-\<close>, \<^verbatim>\<open>*\<close>, \<^verbatim>\<open>/\<close>, \<^verbatim>\<open><\<close> and \<^verbatim>\<open><=\<close> (\<^verbatim>\<open>a > b\<close> is
  \<open>b < a\<close>). A comparison with \<open>NaN\<close> is false. A zero divisor is taken as \<open>+0\<close>.\<close>

instantiation jsnum :: "{plus, uminus, minus, times, inverse, ord}"
begin

fun plus_jsnum :: "jsnum \<Rightarrow> jsnum \<Rightarrow> jsnum" where
  "plus_jsnum (Fin a) (Fin b) = ovf (a + b)"
| "plus_jsnum NaN y = NaN"
| "plus_jsnum x NaN = NaN"
| "plus_jsnum PInf NInf = NaN"
| "plus_jsnum NInf PInf = NaN"
| "plus_jsnum PInf y = PInf"
| "plus_jsnum x PInf = PInf"
| "plus_jsnum NInf y = NInf"
| "plus_jsnum x NInf = NInf"

fun uminus_jsnum :: "jsnum \<Rightarrow> jsnum" where
  "uminus_jsnum NaN = NaN"
| "uminus_jsnum NInf = PInf"
| "uminus_jsnum (Fin a) = Fin (- a)"
| "uminus_jsnum PInf = NInf"

definition minus_jsnum :: "jsnum \<Rightarrow> jsnum \<Rightarrow> jsnum" where
  "minus_jsnum x y = x + (- y)"

fun times_jsnum :: "jsnum \<Rightarrow> jsnum \<Rightarrow> jsnum" where
  "times_jsnum (Fin a) (Fin b) = ovf (a * b)"
| "times_jsnum NaN y = NaN"
| "times_jsnum x NaN = NaN"
| "times_jsnum x y = infOf (signOf x * signOf y)"

fun divide_jsnum :: "jsnum \<Rightarrow> jsnum \<Rightarrow> jsnum" where
  "divide_jsnum (Fin a) (Fin b) = (if b = 0 then infOf a else ovf (a / b))"
| "divide_jsnum NaN y = NaN"
| "divide_jsnum x NaN = NaN"
| "divide_jsnum (Fin a) y = Fin 0"
| "divide_jsnum x (Fin b) = infOf (signOf x * (if b < 0 then - 1 else 1))"
| "divide_jsnum x y = NaN"

definition inverse_jsnum :: "jsnum \<Rightarrow> jsnum" where
  "inverse_jsnum x = divide (Fin 1) (x::jsnum)"

fun less_jsnum :: "jsnum \<Rightarrow> jsnum \<Rightarrow> bool" where
  "less_jsnum (Fin a) (Fin b) = (a < b)"
| "less_jsnum NInf (Fin b) = True"
| "less_jsnum NInf PInf = True"
| "less_jsnum (Fin a) PInf = True"
| "less_jsnum x y = False"

fun less_eq_jsnum :: "jsnum \<Rightarrow> jsnum \<Rightarrow> bool" where
  "less_eq_jsnum (Fin a) (Fin b) = (a \<le> b)"
| "less_eq_jsnum NaN y = False"
| "less_eq_jsnum x NaN = False"
| "less_eq_jsnum NInf y = True"
| "less_eq_jsnum x PInf = True"
| "less_eq_jsnum x y = False"

instance ..

end

text \<open>\<^verbatim>\<open>Math.max\<close>, \<^verbatim>\<open>Math.min\<close> and \<^verbatim>\<open>Math.abs\<close>; \<open>truthy\<close> is the test that \<^verbatim>\<open>||\<close> and \<^verbatim>\<open>?:\<close>
  apply to a number: 0 and \<open>NaN\<close> are falsy.\<close>

fun mathMax :: "jsnum \<Rightarrow> jsnum \<Rightarrow> jsnum" where
  "mathMax NaN y = NaN"
| "mathMax x NaN = NaN"
| "mathMax x y = (if x < y then y else x)"

fun mathMin :: "jsnum \<Rightarrow> jsnum \<Rightarrow> jsnum" where
  "mathMin NaN y = NaN"
| "mathMin x NaN = NaN"
| "mathMin x y = (if y < x then y else x)"

fun mathAbs :: "jsnum \<Rightarrow> jsnum" where
  "mathAbs NaN = NaN"
| "mathAbs (Fin a) = Fin \<bar>a\<bar>"
| "mathAbs x = PInf"

fun truthy :: "jsnum \<Rightarrow> bool" where
  "truthy NaN = False"
| "truthy (Fin a) = (a \<noteq> 0)"
| "truthy x = True"

fun isFin :: "jsnum \<Rightarrow> bool" where
  "isFin (Fin a) = True"
| "isFin x = False"

fun toReal :: "jsnum \<Rightarrow> real" where
  "toReal (Fin a) = a"
| "toReal x = 0"

text \<open>\<^verbatim>\<open>Math.hypot(a, b, ...)\<close>: infinite if an argument is, else \<open>NaN\<close> if an argument
  is, else the square root of the sum of the squares.\<close>

definition hypotN :: "jsnum list \<Rightarrow> jsnum" where
  "hypotN xs =
     (if PInf \<in> set xs \<or> NInf \<in> set xs then PInf
      else if NaN \<in> set xs then NaN
      else ovf (sqrt (sum_list (map (\<lambda>v. toReal v * toReal v) xs))))"

text \<open>The remainder operator \<^verbatim>\<open>%\<close> on reals: the quotient is truncated towards zero, so
  the result has the sign of the dividend. On JavaScript numbers: \<open>NaN\<close> for an
  infinite dividend or a zero divisor, the dividend for an infinite divisor.\<close>

definition jsrem :: "real \<Rightarrow> real \<Rightarrow> real" where
  "jsrem a b = a - b * of_int (if 0 \<le> a / b then \<lfloor>a / b\<rfloor> else \<lceil>a / b\<rceil>)"

fun jsremN :: "jsnum \<Rightarrow> jsnum \<Rightarrow> jsnum" where
  "jsremN (Fin a) (Fin b) = (if b = 0 then NaN else Fin (jsrem a b))"
| "jsremN (Fin a) PInf = Fin a"
| "jsremN (Fin a) NInf = Fin a"
| "jsremN x y = NaN"

text \<open>\<^verbatim>\<open>Math.cos\<close>, \<^verbatim>\<open>Math.sin\<close>, \<^verbatim>\<open>Math.acos\<close>.\<close>

fun mathCos :: "jsnum \<Rightarrow> jsnum" where
  "mathCos (Fin a) = Fin (cos a)"
| "mathCos x = NaN"

fun mathSin :: "jsnum \<Rightarrow> jsnum" where
  "mathSin (Fin a) = Fin (sin a)"
| "mathSin x = NaN"

fun mathAcos :: "jsnum \<Rightarrow> jsnum" where
  "mathAcos (Fin a) = (if - 1 \<le> a \<and> a \<le> 1 then Fin (arccos a) else NaN)"
| "mathAcos x = NaN"

subsection \<open>Vector helpers (lines 17-21)\<close>

text \<open>A vector is \<^verbatim>\<open>{x, y, z}\<close>. \<^verbatim>\<open>(v.z||0)\<close> replaces a falsy \<open>z\<close> (0 or \<open>NaN\<close>) by 0; a
  missing \<^verbatim>\<open>z\<close> is not modelled.\<close>

datatype 'n vec = Vec (vx: 'n) (vy: 'n) (vz: 'n)

definition orZero :: "jsnum \<Rightarrow> jsnum" where
  "orZero z = (if truthy z then z else Fin 0)"

definition vaddN :: "jsnum vec \<Rightarrow> jsnum vec \<Rightarrow> jsnum vec" where
  "vaddN a b = Vec (vx a + vx b) (vy a + vy b) (orZero (vz a) + orZero (vz b))"

definition vsubN :: "jsnum vec \<Rightarrow> jsnum vec \<Rightarrow> jsnum vec" where
  "vsubN a b = Vec (vx a - vx b) (vy a - vy b) (orZero (vz a) - orZero (vz b))"

definition vscaleN :: "jsnum vec \<Rightarrow> jsnum \<Rightarrow> jsnum vec" where
  "vscaleN v s = Vec (vx v * s) (vy v * s) (orZero (vz v) * s)"

definition vlenN :: "jsnum vec \<Rightarrow> jsnum" where
  "vlenN v = hypotN [vx v, vy v, orZero (vz v)]"

text \<open>\<^verbatim>\<open>const l = vlen(v)||1\<close>: a length of 0 or \<open>NaN\<close> is replaced by 1.\<close>

definition vnormN :: "jsnum vec \<Rightarrow> jsnum vec" where
  "vnormN v = (let l = (if truthy (vlenN v) then vlenN v else Fin 1) in vscaleN v (Fin 1 / l))"

subsection \<open>Utilities (lines 26-30)\<close>

text \<open>\<^verbatim>\<open>clamp\<close> is \<^verbatim>\<open>Math.max(a, Math.min(b, v))\<close>: for a \<open>NaN\<close> argument \<open>v\<close> the result is
  \<open>NaN\<close>, not a number between the bounds.\<close>

definition clampN :: "jsnum \<Rightarrow> jsnum \<Rightarrow> jsnum \<Rightarrow> jsnum" where
  "clampN v a b = mathMax a (mathMin b v)"

definition sumArrN :: "jsnum list \<Rightarrow> jsnum" where
  "sumArrN arr = foldl (\<lambda>s x. s + x) (Fin 0) arr"

definition avgN :: "jsnum list \<Rightarrow> jsnum" where
  "avgN arr = (if length arr \<noteq> 0 then sumArrN arr / Fin (real (length arr)) else Fin 0)"

text \<open>\<^verbatim>\<open>a.map((v,i)=>v-(b[i]??0))\<close>: past the end of \<open>b\<close> the subtrahend is 0.\<close>

fun vecDiff :: "jsnum list \<Rightarrow> jsnum list \<Rightarrow> jsnum list" where
  "vecDiff [] b = []"
| "vecDiff (v # a) [] = (v - Fin 0) # vecDiff a []"
| "vecDiff (v # a) (w # b) = (v - w) # vecDiff a b"

subsection \<open>The store\<close>

text \<open>A checkpoint token is \<^verbatim>\<open>sha256Hex(JSON.stringify(p))\<close>. The hash is opaque: a
  token is modelled by the payload \<open>p\<close> it was computed from.\<close>

record 'n token =
  t_id :: string
  t_hue :: 'n
  t_rotation :: 'n
  t_coherence :: 'n
  t_entropy :: 'n
  t_sandbox :: 'n
  t_region :: "string option"
  t_pos :: "'n vec"
  t_t :: int

type_synonym addr = nat

record 'n store =
  floats :: "addr \<Rightarrow> 'n list"
  tokens :: "addr \<Rightarrow> 'n token list"
  meanTheta :: "string \<Rightarrow> 'n"

subsection \<open>Region (lines 36-71)\<close>

text \<open>The fields set by the constructor. \<open>children\<close> is not read by any method and is
  left out; \<open>observers\<close> is a Set of node ids, iterated in insertion order;
  \<open>generation\<close> is an integer by construction (line 42).\<close>

datatype 'n region = Region
  (rid: string) (parent: "'n region option") (kappa: 'n) (noise: 'n)
  (observers: "string list") (generation: int) (fieldCenter: "'n vec") (fieldStrength: 'n)

text \<open>\<^verbatim>\<open>effectiveKappa(g)\<close>, lines 48-52. The loop \<^verbatim>\<open>while(cur)\<close> walks the parent
  references; \<open>g\<close> and the generations are integers, so \<^verbatim>\<open>Math.pow\<close> is a power with a
  natural exponent, at most 1.\<close>

fun kappaWalkN :: "int \<Rightarrow> jsnum region option \<Rightarrow> jsnum \<Rightarrow> jsnum \<Rightarrow> jsnum \<times> jsnum" where
  "kappaWalkN g None tot wsum = (tot, wsum)"
| "kappaWalkN g (Some (Region i p k nz ob gen fc fs)) tot wsum =
     (let w = (case p of Some pr \<Rightarrow> Fin (0.88 ^ nat (max 0 (g - gen))) | None \<Rightarrow> Fin 1)
      in kappaWalkN g p (tot + w * k) (wsum + w))"

definition effectiveKappaN :: "jsnum region \<Rightarrow> int \<Rightarrow> jsnum" where
  "effectiveKappaN this g =
     (case kappaWalkN g (Some this) (Fin 0) (Fin 0) of
        (tot, wsum) \<Rightarrow> if truthy wsum then tot / wsum else kappa this)"

text \<open>\<^verbatim>\<open>computeField()\<close>, lines 53-63, applied to a position: the closure \<open>base\<close> plus,
  for a region with a parent, the parent's field at the same position.\<close>

fun computeFieldN :: "jsnum region \<Rightarrow> jsnum vec \<Rightarrow> jsnum vec" where
  "computeFieldN (Region i p k nz ob gen fc fs) pos =
     (let toC = vsubN fc pos;
          d = vlenN toC + Fin (1 / 1000000);
          base = vscaleN (vnormN toC) (fs / (Fin 1 + Fin 0.01 * d * d))
      in case p of None \<Rightarrow> base | Some pr \<Rightarrow> vaddN base (computeFieldN pr pos))"

text \<open>\<^verbatim>\<open>allowedHueBand(thetaVec, coh)\<close>, lines 64-70. It assigns \<^verbatim>\<open>this.meanTheta\<close>, so
  it returns the store with the band. \<open>wrapTurnN\<close> is the expression of line 67: the
  mean angle as a fraction of a turn.\<close>

definition wrapTurnN :: "jsnum \<Rightarrow> jsnum" where
  "wrapTurnN theta =
     jsremN (jsremN theta (Fin (2 * pi)) + Fin (2 * pi)) (Fin (2 * pi)) / Fin (2 * pi)"

record 'n band =
  bandL :: "'n option"
  bandU :: "'n option"
  center :: 'n
  halfWidth :: 'n

definition allowedHueBandN ::
  "jsnum region \<Rightarrow> jsnum list \<Rightarrow> jsnum \<Rightarrow> jsnum store \<Rightarrow> jsnum band \<times> jsnum store" where
  "allowedHueBandN this thetaVec coh h =
     (let mTheta = avgN thetaVec;
          h' = h\<lparr>meanTheta := (meanTheta h)(rid this := mTheta)\<rparr>;
          spread = clampN (Fin 0.2 + (Fin 1 - clampN (coh / Fin 100) (Fin 0) (Fin 1)) * Fin 0.8)
                     (Fin 0.05) (Fin 1.5);
          c = wrapTurnN mTheta;
          hw = spread * (Fin 1 / (Fin 1 + effectiveKappaN this (generation this) * Fin 8))
      in (\<lparr>bandL = Some (clampN (c - hw) (Fin 0) (Fin 1)),
           bandU = Some (clampN (c + hw) (Fin 0) (Fin 1)),
           center = c, halfWidth = hw\<rparr>, h'))"

section \<open>The region methods on exact reals\<close>

text \<open>The same three methods with every number a real: no overflow, no \<open>NaN\<close>. They
  say which formula a method evaluates on finite numbers; on finite arguments the two
  readings agree up to overflow (\<open>clampN_Fin\<close>, \<open>vlenN_Fin\<close>, \<open>wrapTurnN_Fin\<close>). On a
  real, \<^verbatim>\<open>(v.z||0)\<close> and \<^verbatim>\<open>vlen(v)||1\<close> only replace 0. No definition of the step
  (section "Nodes and the evolution step") uses a definition of this section.\<close>

subsection \<open>Vector helpers and utilities\<close>




definition hypot :: "real list \<Rightarrow> real" where
  "hypot xs = sqrt (sum_list (map (\<lambda>v. v * v) xs))"

definition vlen :: "real vec \<Rightarrow> real" where
  "vlen v = hypot [vx v, vy v, vz v]"


text \<open>\<^verbatim>\<open>Math.max(a, Math.min(b, v))\<close> on reals, where \<^verbatim>\<open>Math.max\<close> and \<^verbatim>\<open>Math.min\<close> are
  \<open>max\<close> and \<open>min\<close>. It is used by the exact-real \<open>allowedHueBand\<close> only; the step
  clamps with \<open>clampN\<close>, which passes \<open>NaN\<close> through.\<close>

definition clamp :: "real \<Rightarrow> real \<Rightarrow> real \<Rightarrow> real" where
  "clamp v a b = max a (min b v)"



subsection \<open>effectiveKappa, computeField, allowedHueBand\<close>

fun kappaWalk :: "int \<Rightarrow> real region option \<Rightarrow> real \<Rightarrow> real \<Rightarrow> real \<times> real" where
  "kappaWalk g None tot wsum = (tot, wsum)"
| "kappaWalk g (Some (Region i p k nz ob gen fc fs)) tot wsum =
     (let w = (case p of Some pr \<Rightarrow> 0.88 ^ nat (max 0 (g - gen)) | None \<Rightarrow> 1)
      in kappaWalk g p (tot + w * k) (wsum + w))"

definition effectiveKappa :: "real region \<Rightarrow> int \<Rightarrow> real" where
  "effectiveKappa this g =
     (case kappaWalk g (Some this) 0 0 of
        (tot, wsum) \<Rightarrow> if wsum \<noteq> 0 then tot / wsum else kappa this)"


definition wrapTurn :: "real \<Rightarrow> real" where
  "wrapTurn theta = jsrem (jsrem theta (2 * pi) + 2 * pi) (2 * pi) / (2 * pi)"


subsection \<open>The specification's wording, for comparison\<close>

text \<open>The ancestor chain of a region, from the region itself to the root.\<close>

fun chain :: "real region \<Rightarrow> real region list" where
  "chain (Region i p k nz ob gen fc fs) =
     Region i p k nz ob gen fc fs # (case p of None \<Rightarrow> [] | Some pr \<Rightarrow> chain pr)"

text \<open>Section 4.1 of the specification on \<open>effectiveKappa\<close>: the region itself has
  weight 1, each ancestor \<open>a\<close> the weight \<open>0.88 ^ max(0, atGeneration - a.generation)\<close>;
  the result is the weighted mean, or the region's own \<open>kappa\<close> when the total weight
  is zero.\<close>

definition specWeights :: "int \<Rightarrow> real region \<Rightarrow> real list" where
  "specWeights g this = 1 # map (\<lambda>a. 0.88 ^ nat (max 0 (g - generation a))) (tl (chain this))"

definition effectiveKappa_spec :: "real region \<Rightarrow> int \<Rightarrow> real" where
  "effectiveKappa_spec this g =
     (let ws = specWeights g this;
          tot = sum_list (map2 (\<lambda>w c. w * kappa c) ws (chain this));
          wsum = sum_list ws
      in if wsum = 0 then kappa this else tot / wsum)"

text \<open>The weight that the loop of \<open>effectiveKappa\<close> gives to a region of the chain
  (line 50).\<close>

definition walkWeight :: "int \<Rightarrow> real region \<Rightarrow> real" where
  "walkWeight g c = (case parent c of Some pr \<Rightarrow> 0.88 ^ nat (max 0 (g - generation c)) | None \<Rightarrow> 1)"


subsection \<open>Regions and stores for the region claims\<close>

text \<open>A root, a child of it, and a root with the field of the scenario of section 8
  of the specification; an empty store, and one in which the root has a cached
  \<open>meanTheta\<close>.\<close>

definition rootR :: "real region" where
  "rootR = Region ''root'' None 0.1 0 [] 0 (Vec 0 0 0) 0.008"

definition childR :: "real region" where
  "childR = Region ''1'' (Some rootR) 0.3 0 [] 1 (Vec 80 0 0) 0.005"




section \<open>Nodes and the evolution step\<close>

subsection \<open>Node (lines 76-103)\<close>

text \<open>The prototype of an object: \<open>NodeProto\<close> for an instance of the class (it has
  the method \<^verbatim>\<open>snapshot\<close>), \<open>ObjectProto\<close> for an object literal.\<close>

datatype proto = NodeProto | ObjectProto

datatype error = TypeError

record awareness =
  velocity :: jsnum
  alignmentScore :: jsnum
  hueConvergence :: jsnum
  gazeIntensity :: jsnum
  isHappyChallenged :: bool

text \<open>The fields of the constructor, in its order. \<open>id\<close>, \<open>type\<close> and \<open>range\<close> carry a
  suffix. \<open>angles\<close> is an array that no code assigns to after construction: it is a
  value. \<open>incubationHistory\<close> and \<open>history\<close> are addresses of arrays in the store.\<close>

record node =
  proto :: proto
  id_n :: string
  type_n :: string
  angles :: "jsnum list"
  sides :: nat
  hue :: jsnum
  rotation :: jsnum
  coherence :: jsnum
  entropy :: jsnum
  sandbox :: jsnum
  stagnation :: jsnum
  learningRate :: jsnum
  growthPotential :: jsnum
  pos :: "jsnum vec"
  vel :: "jsnum vec"
  acc :: "jsnum vec"
  mass :: jsnum
  range_n :: jsnum
  fov :: jsnum
  incubating :: bool
  incubationHistory :: addr
  incubationScore :: jsnum
  children :: "string list"
  observer :: bool
  region :: "jsnum region option"
  awareness :: awareness
  history :: addr

text \<open>\<^verbatim>\<open>snapshot()\<close>, lines 98-102, on an instance of the class: it pushes the token of
  the observable fields onto the array \<open>history\<close>. \<open>t\<close> is \<^verbatim>\<open>Date.now()\<close>.\<close>

definition snapshot :: "int \<Rightarrow> node \<Rightarrow> jsnum store \<Rightarrow> jsnum store" where
  "snapshot t this h =
     (let p = \<lparr>t_id = id_n this, t_hue = hue this, t_rotation = rotation this,
               t_coherence = coherence this, t_entropy = entropy this,
               t_sandbox = sandbox this, t_region = map_option rid (region this),
               t_pos = pos this, t_t = t\<rparr>
      in h\<lparr>tokens := (tokens h)(history this := tokens h (history this) @ [p])\<rparr>)"

text \<open>The call \<^verbatim>\<open>o.snapshot()\<close>: the method is found on the prototype of the class
  only; on any other object \<^verbatim>\<open>o.snapshot\<close> is \<^verbatim>\<open>undefined\<close> and the call throws a
  TypeError.\<close>

definition callSnapshot :: "int \<Rightarrow> node \<Rightarrow> jsnum store \<Rightarrow> (error + node) \<times> jsnum store" where
  "callSnapshot t obj h =
     (case proto obj of
        NodeProto \<Rightarrow> (Inr obj, snapshot t obj h)
      | ObjectProto \<Rightarrow> (Inl TypeError, h))"

text \<open>\<^verbatim>\<open>{...node}\<close>: a new object literal with the own properties of \<open>node\<close>; arrays
  and objects are copied by reference (here: by address).\<close>

definition spreadCopy :: "node \<Rightarrow> node" where
  "spreadCopy node = node\<lparr>proto := ObjectProto\<rparr>"

text \<open>The constructor, lines 77-97. \<open>opts\<close> lists the options it reads; an absent
  option is \<open>None\<close> and takes the default of its \<^verbatim>\<open>??\<close> (a \<open>NaN\<close> option is present).
  Three defaults draw from \<^verbatim>\<open>Math.random()\<close> (\<open>cHue\<close>, \<open>cRot\<close>, \<open>cPosX\<close>, \<open>cPosY\<close>, each in
  \<open>[0, 1)\<close>); \<open>cNow\<close> is \<^verbatim>\<open>Date.now()\<close>. The two array literals are allocated at the
  addresses \<open>aInc\<close> and \<open>aHist\<close>.\<close>

record opts =
  o_hue :: "jsnum option"
  o_rotation :: "jsnum option"
  o_coherence :: "jsnum option"
  o_entropy :: "jsnum option"
  o_sandbox :: "jsnum option"
  o_pos :: "jsnum vec option"
  o_vel :: "jsnum vec option"
  o_acc :: "jsnum vec option"
  o_mass :: "jsnum option"
  o_range :: "jsnum option"
  o_fov :: "jsnum option"
  o_incubating :: "bool option"
  o_region :: "jsnum region option"

record ctorDraws =
  cHue :: real
  cRot :: real
  cPosX :: real
  cPosY :: real
  cNow :: int

definition orElse :: "'a option \<Rightarrow> 'a \<Rightarrow> 'a" where
  "orElse v dflt = (case v of Some a \<Rightarrow> a | None \<Rightarrow> dflt)"

definition zeroVec :: "jsnum vec" where
  "zeroVec = Vec (Fin 0) (Fin 0) (Fin 0)"

definition newNode ::
  "string \<Rightarrow> string \<Rightarrow> jsnum list \<Rightarrow> opts \<Rightarrow> ctorDraws \<Rightarrow> addr \<Rightarrow> addr \<Rightarrow> jsnum store
     \<Rightarrow> node \<times> jsnum store" where
  "newNode i ty angs os r aInc aHist h =
     (let this = \<lparr>proto = NodeProto, id_n = i, type_n = ty, angles = angs, sides = length angs,
                   hue = orElse (o_hue os) (Fin (cHue r)),
                   rotation = orElse (o_rotation os) (Fin (cRot r) * Fin pi * Fin 2),
                   coherence = orElse (o_coherence os) (Fin 50),
                   entropy = orElse (o_entropy os) (Fin 1),
                   sandbox = orElse (o_sandbox os) (Fin 1),
                   stagnation = Fin 0, learningRate = Fin 0, growthPotential = Fin 0,
                   pos = orElse (o_pos os)
                           (Vec ((Fin (cPosX r) - Fin 0.5) * Fin 40)
                                ((Fin (cPosY r) - Fin 0.5) * Fin 40) (Fin 0)),
                   vel = orElse (o_vel os) zeroVec,
                   acc = orElse (o_acc os) zeroVec,
                   mass = orElse (o_mass os) (Fin 1),
                   range_n = orElse (o_range os) (Fin 30),
                   fov = orElse (o_fov os) (Fin pi * Fin 0.9),
                   incubating = orElse (o_incubating os) True,
                   incubationHistory = aInc, incubationScore = Fin 0,
                   children = [], observer = False, region = o_region os,
                   awareness = \<lparr>velocity = Fin 0, alignmentScore = Fin 0, hueConvergence = Fin 0,
                                 gazeIntensity = Fin 0, isHappyChallenged = False\<rparr>,
                   history = aHist\<rparr>;
          h1 = h\<lparr>floats := (floats h)(aInc := []), tokens := (tokens h)(aHist := [])\<rparr>
      in (this, snapshot (cNow r) this h1))"

subsection \<open>evolveNode (lines 108-235)\<close>

text \<open>The context object after its defaults (line 109); \<open>spatialNeighbors\<close> may be
  absent. \<open>allNodes\<close> is a Map from ids to nodes.\<close>

record ctx =
  neighbors :: "node list"
  spatialNeighbors :: "node list option"
  regionObj :: "jsnum region option"
  contributions :: "jsnum list"
  allNodes :: "string \<Rightarrow> node option"

text \<open>The values of \<^verbatim>\<open>Math.random()\<close> at its four call sites (lines 173, 181, 182 and
  233), each in \<open>[0, 1)\<close>, and of \<^verbatim>\<open>Date.now()\<close>.\<close>

record draws =
  rBreakthrough :: real
  rJitterX :: real
  rJitterY :: real
  rCheckpoint :: real
  now :: int

text \<open>Lines 113-116. \<open>prev\<close> is the argument \<open>node\<close> or its copy \<open>n\<close>; every field read
  is defined, so none of the \<^verbatim>\<open>??\<close> fallbacks is taken.\<close>

definition stateVector :: "node \<Rightarrow> jsnum list" where
  "stateVector m = [hue m, rotation m] @ angles m @ [vx (pos m), vy (pos m)]"

definition velocityOf :: "node \<Rightarrow> node \<Rightarrow> jsnum store \<Rightarrow> jsnum" where
  "velocityOf node n h =
     (let prev = (if length (tokens h (history n)) > 1 then node else n);
          stateNow = stateVector n;
          statePrev = stateVector prev
      in hypotN (vecDiff stateNow statePrev))"

text \<open>Lines 117-124: stagnation, learning rate, entropy, growth potential.\<close>

definition dynamics :: "jsnum \<Rightarrow> jsnum list \<Rightarrow> node \<Rightarrow> node" where
  "dynamics v contribs n =
     (let n1 = n\<lparr>stagnation :=
                  clampN (stagnation n + (if v < Fin 0.001 then Fin 0.05 else Fin (- 0.04)))
                    (Fin 0) (Fin 1)\<rparr>;
          n2 = n1\<lparr>learningRate :=
                   v * (if length contribs \<noteq> 0 then avgN contribs / Fin 10 else Fin 0.3)\<rparr>;
          n3 = n2\<lparr>entropy :=
                   clampN ((Fin 1 - coherence n2 / Fin 100) * (Fin 1 + stagnation n2 * Fin 2)
                           * (Fin 1 - learningRate n2)) (Fin 0.1) (Fin 1000)\<rparr>
      in n3\<lparr>growthPotential := entropy n3 * learningRate n3 / (stagnation n3 + Fin 0.1)\<rparr>)"

text \<open>Lines 127-130: geometry alignment.\<close>

definition alignment :: "node list \<Rightarrow> node \<Rightarrow> node" where
  "alignment nbrs n =
     (if length nbrs \<noteq> 0
      then let avgRot = avgN (map rotation nbrs)
           in n\<lparr>rotation := rotation n + Fin 0.04 * (avgRot - rotation n)\<rparr>
      else n)"

text \<open>Lines 133-140: the hue band and the move of the hue towards its centre.\<close>

definition hueBand ::
  "node list \<Rightarrow> jsnum region option \<Rightarrow> node \<Rightarrow> jsnum store \<Rightarrow> jsnum band \<times> node \<times> jsnum store" where
  "hueBand nbrs robj n h =
     (case robj of
        None \<Rightarrow> (\<lparr>bandL = None, bandU = None, center = hue n, halfWidth = Fin 0.5\<rparr>, n, h)
      | Some r \<Rightarrow>
          (let thetaVec = map rotation nbrs @ [rotation n];
               rc = avgN (map coherence nbrs @ [coherence n])
           in case allowedHueBandN r thetaVec rc h of
                (bnd, h') \<Rightarrow>
                  (let diff = jsremN (center bnd - hue n + Fin 1.5) (Fin 1) - Fin 0.5
                   in (bnd, n\<lparr>hue := jsremN (hue n + Fin 0.018 * diff + Fin 1) (Fin 1)\<rparr>, h'))))"

text \<open>Lines 143-156: attraction to the centroid of the spatial neighbours and
  short-range repulsion.\<close>

definition neighborForce :: "ctx \<Rightarrow> node \<Rightarrow> jsnum vec" where
  "neighborForce c n =
     (let force = zeroVec;
          spatialNbr = (case spatialNeighbors c of
                          Some s \<Rightarrow> s
                        | None \<Rightarrow> filter (\<lambda>x. vlenN (vsubN (pos n) (pos x)) < range_n n) (neighbors c))
      in if length spatialNbr \<noteq> 0
         then let centroid = foldl (\<lambda>a x. vaddN a (pos x)) zeroVec spatialNbr;
                  avgC = vscaleN centroid (Fin 1 / Fin (real (length spatialNbr)));
                  force1 = vaddN force (vscaleN (vnormN (vsubN avgC (pos n)))
                                          (Fin 0.002 * (coherence n / Fin 100)))
              in foldl (\<lambda>f ob. let dvec = vsubN (pos n) (pos ob); d = vlenN dvec
                                in if d < Fin 6
                                   then vaddN f (vscaleN (vnormN dvec) (Fin 0.02 * (Fin 6 - d)))
                                   else f)
                       force1 spatialNbr
         else force)"

text \<open>Lines 159-162: the region field; a region always has the method.\<close>

definition regionField :: "jsnum region option \<Rightarrow> node \<Rightarrow> jsnum vec \<Rightarrow> jsnum vec" where
  "regionField robj n force =
     (case robj of
        None \<Rightarrow> force
      | Some r \<Rightarrow> vaddN force (vscaleN (computeFieldN r (pos n)) (Fin 1)))"

text \<open>Lines 165-171: the horizon pull. It yields \<open>horizonTheta\<close> and \<open>horizonHue\<close>; the
  call of \<open>allowedHueBand\<close> on the parent writes the parent's \<open>meanTheta\<close> before line
  169 reads it.\<close>

definition horizonPull ::
  "jsnum region option \<Rightarrow> node \<Rightarrow> jsnum store \<Rightarrow> jsnum \<times> jsnum \<times> jsnum store" where
  "horizonPull robj n h =
     (case (if Fin 75 < coherence n \<and> Fin 1.2 < growthPotential n
            then (case robj of None \<Rightarrow> None | Some r \<Rightarrow> parent r) else None) of
        None \<Rightarrow> (Fin 0, Fin 0, h)
      | Some ghost \<Rightarrow>
          (case allowedHueBandN ghost [] (coherence n) h of
             (gband, h') \<Rightarrow>
               (Fin 0.008 * (meanTheta h' (rid ghost) - rotation n),
                Fin 0.006 * (center gband - hue n), h')))"

text \<open>Lines 172-177: the breakthrough jitter, then the two perturbations are applied.
  The final \<open>horizonTheta\<close> is returned: line 230 reads it.\<close>

definition breakthrough :: "draws \<Rightarrow> jsnum \<Rightarrow> jsnum \<Rightarrow> node \<Rightarrow> jsnum \<times> node" where
  "breakthrough d horizonTheta horizonHue n =
     (let fired = (Fin 92 < coherence n \<and> Fin 0.8 < stagnation n);
          hT = (if fired then horizonTheta + (Fin (rBreakthrough d) - Fin 0.5) * Fin 0.2
                else horizonTheta);
          n1 = (if fired then n\<lparr>entropy := entropy n + Fin 0.1\<rparr> else n);
          n2 = n1\<lparr>rotation := rotation n1 + hT\<rparr>
      in (hT, n2\<lparr>hue := jsremN (hue n2 + horizonHue + Fin 1) (Fin 1)\<rparr>))"

text \<open>Lines 180-190: motion jitter, integration, world bounds.\<close>

definition integrate :: "draws \<Rightarrow> jsnum vec \<Rightarrow> node \<Rightarrow> node" where
  "integrate d force n =
     (let jitter = Fin 1 + (Fin 1 - coherence n / Fin 100) * Fin 1.5;
          fx = vx force + (Fin (rJitterX d) - Fin 0.5) * Fin 0.0005 * jitter;
          fy = vy force + (Fin (rJitterY d) - Fin 0.5) * Fin 0.0005 * jitter;
          force' = Vec fx fy (vz force);
          n1 = n\<lparr>acc := vscaleN force' (Fin 1 / mass n)\<rparr>;
          n2 = n1\<lparr>vel := vaddN (vscaleN (vel n1) (Fin 0.98)) (acc n1)\<rparr>;
          n3 = n2\<lparr>pos := vaddN (pos n2) (vel n2)\<rparr>
      in if Fin 500 < vlenN (pos n3) then n3\<lparr>pos := vscaleN (vnormN (pos n3)) (Fin 475)\<rparr> else n3)"

text \<open>Lines 193-209: the gaze of the region's observers.\<close>

definition gazeStep :: "ctx \<Rightarrow> node \<Rightarrow> jsnum \<Rightarrow> string \<Rightarrow> jsnum" where
  "gazeStep c n gaze oid =
     (case allNodes c oid of
        None \<Rightarrow> gaze
      | Some obs \<Rightarrow>
          if coherence obs \<le> Fin 80 then gaze
          else let v = vsubN (pos n) (pos obs); dist = vlenN v
               in if range_n obs < dist then gaze
                  else let dir = vnormN v;
                           fwd = Vec (mathCos (rotation obs)) (mathSin (rotation obs)) (Fin 0);
                           angle = mathAcos (mathMax (Fin (- 1))
                                     (mathMin (Fin 1) (vx fwd * vx dir + vy fwd * vy dir)))
                       in if angle \<le> fov obs / Fin 2
                          then gaze + (coherence obs / Fin 100)
                                        * (Fin 1 - clampN (dist / range_n obs) (Fin 0) (Fin 1))
                          else gaze)"

definition observerGaze :: "ctx \<Rightarrow> node \<Rightarrow> jsnum" where
  "observerGaze c n =
     (case regionObj c of
        None \<Rightarrow> Fin 0
      | Some r \<Rightarrow> foldl (gazeStep c n) (Fin 0) (observers r))"

text \<open>Lines 212-214: coherence, sandbox, observer flag.\<close>

definition coherenceSandbox :: "jsnum list \<Rightarrow> node \<Rightarrow> node" where
  "coherenceSandbox contribs n =
     (let n1 = n\<lparr>coherence := clampN (Fin 10 * sumArrN contribs / (entropy n + Fin 1)
                                     * (Fin 1 + Fin 0.01 * growthPotential n)) (Fin 0) (Fin 100)\<rparr>;
          n2 = n1\<lparr>sandbox := (if Fin 80 < coherence n1 then mathMin (Fin 10) (sandbox n1 * Fin 1.006)
                               else mathMax (Fin 0.3) (sandbox n1 * Fin 0.994))\<rparr>
      in n2\<lparr>observer := (Fin 85 < coherence n2 \<and> length (children n2) \<ge> 3)\<rparr>)"

text \<open>Lines 217-222: incubation. \<^verbatim>\<open>push\<close> and \<^verbatim>\<open>shift\<close> act on the array at the
  address held by \<open>n\<close>.\<close>

definition incubation :: "node \<Rightarrow> jsnum store \<Rightarrow> node \<times> jsnum store" where
  "incubation n h =
     (let health = clampN ((coherence n / Fin 100) * (Fin 1 - entropy n / Fin 10)
                           * (Fin 1 - stagnation n)) (Fin 0) (Fin 1);
          a = incubationHistory n;
          pushed = floats h a @ [health];
          arr = (if length pushed > 40 then tl pushed else pushed);
          h' = h\<lparr>floats := (floats h)(a := arr)\<rparr>;
          n1 = n\<lparr>incubationScore := avgN (floats h' (incubationHistory n))\<rparr>;
          n2 = (if incubating n1 \<and> Fin 0.85 < incubationScore n1 \<and> Fin 1.0 < growthPotential n1
                then n1\<lparr>incubating := False\<rparr> else n1);
          n3 = (if incubating n2 then n2\<lparr>sandbox := mathMin (sandbox n2) (Fin 1.2)\<rparr> else n2)
      in (n3, h'))"

text \<open>Lines 225-231: the awareness object.\<close>

definition awarenessOf :: "jsnum \<Rightarrow> jsnum band \<Rightarrow> jsnum \<Rightarrow> jsnum \<Rightarrow> node \<Rightarrow> awareness" where
  "awarenessOf v bnd gaze horizonTheta n =
     \<lparr>velocity = v,
      alignmentScore = coherence n / Fin 100,
      hueConvergence = (if Fin 0 < halfWidth bnd
                        then Fin 1 - mathAbs (hue n - center bnd) / halfWidth bnd else Fin 0),
      gazeIntensity = gaze,
      isHappyChallenged = (Fin 65 < coherence n \<and> Fin 1.0 < growthPotential n
                           \<and> stagnation n < Fin 0.6
                           \<and> (horizonTheta \<noteq> Fin 0 \<or> Fin 80 < coherence n))\<rparr>"

text \<open>Lines 109-231, everything before the checkpoint: the object \<open>n\<close> and the store
  as they are when line 233 is reached.\<close>

definition evolveBody :: "node \<Rightarrow> ctx \<Rightarrow> draws \<Rightarrow> jsnum store \<Rightarrow> node \<times> jsnum store" where
  "evolveBody node c d h =
     (let n0 = spreadCopy node;
          v = velocityOf node n0 h;
          n1 = dynamics v (contributions c) n0;
          n2 = alignment (neighbors c) n1
      in case hueBand (neighbors c) (regionObj c) n2 h of
           (bnd, n3, h1) \<Rightarrow>
             (let force = regionField (regionObj c) n3 (neighborForce c n3)
              in case horizonPull (regionObj c) n3 h1 of
                   (hT0, hH, h2) \<Rightarrow>
                     (case breakthrough d hT0 hH n3 of
                        (hT, n4) \<Rightarrow>
                          (let n5 = integrate d force n4;
                               gaze = observerGaze c n5;
                               n6 = coherenceSandbox (contributions c) n5
                           in case incubation n6 h2 of
                                (n7, h3) \<Rightarrow>
                                  (n7\<lparr>awareness := awarenessOf v bnd gaze hT n7\<rparr>, h3)))))"

text \<open>Lines 233-234: with a draw below 0.02 the step calls \<^verbatim>\<open>n.snapshot()\<close> and then
  returns \<open>n\<close>; otherwise it returns \<open>n\<close>.\<close>

definition evolveNode :: "node \<Rightarrow> ctx \<Rightarrow> draws \<Rightarrow> jsnum store \<Rightarrow> (error + node) \<times> jsnum store" where
  "evolveNode node c d h =
     (case evolveBody node c d h of
        (n, h') \<Rightarrow> if rCheckpoint d < 0.02 then callSnapshot (now d) n h' else (Inr n, h'))"

subsection \<open>Successive steps\<close>

text \<open>The driver (lines 249-260) replaces each node by the result of its step and
  steps it again. \<open>run\<close> does this for one node, with the context and the draws of
  each step; an exception ends the run.\<close>

fun run :: "node \<Rightarrow> (ctx \<times> draws) list \<Rightarrow> jsnum store \<Rightarrow> (error + node) \<times> jsnum store" where
  "run n [] h = (Inr n, h)"
| "run n ((c, d) # rest) h =
     (case evolveNode n c d h of
        (Inl e, h') \<Rightarrow> (Inl e, h')
      | (Inr n', h') \<Rightarrow> run n' rest h')"

text \<open>The node a call returned, if it returned.\<close>

definition returned :: "(error + node) \<times> jsnum store \<Rightarrow> node option" where
  "returned r = (case fst r of Inl e \<Rightarrow> None | Inr n \<Rightarrow> Some n)"

section \<open>Bounds and concrete inputs of the step\<close>




text \<open>An empty store, and the node of
  \<^verbatim>\<open>new Node("n0", "triangle", [60,60,60], {hue: 0.5, rotation: 0, pos: {x:0,y:0,z:0}})\<close>
  with its arrays at the addresses 0 and 1; three more nodes that differ from it in
  one option each.\<close>

definition emptyStoreN :: "jsnum store" where
  "emptyStoreN = \<lparr>floats = (\<lambda>a. []), tokens = (\<lambda>a. []), meanTheta = (\<lambda>i. Fin 0)\<rparr>"

definition noOpts :: opts where
  "noOpts = \<lparr>o_hue = None, o_rotation = None, o_coherence = None, o_entropy = None,
             o_sandbox = None, o_pos = None, o_vel = None, o_acc = None, o_mass = None,
             o_range = None, o_fov = None, o_incubating = None, o_region = None\<rparr>"

definition opts0 :: opts where
  "opts0 = noOpts\<lparr>o_hue := Some (Fin 0.5), o_rotation := Some (Fin 0), o_pos := Some zeroVec\<rparr>"

definition ctorDraws0 :: ctorDraws where
  "ctorDraws0 = \<lparr>cHue = 0, cRot = 0, cPosX = 0, cPosY = 0, cNow = 0\<rparr>"

definition construct :: "opts \<Rightarrow> node \<times> jsnum store" where
  "construct os = newNode ''n0'' ''triangle'' [Fin 60, Fin 60, Fin 60] os ctorDraws0 0 1 emptyStoreN"

definition node0 :: node where
  "node0 = fst (construct opts0)"

definition store0 :: "jsnum store" where
  "store0 = snd (construct opts0)"



definition nodeMoving :: node where
  "nodeMoving = fst (construct (opts0\<lparr>o_vel := Some (Vec (Fin 1) (Fin 0) (Fin 0))\<rparr>))"

definition storeMoving :: "jsnum store" where
  "storeMoving = snd (construct (opts0\<lparr>o_vel := Some (Vec (Fin 1) (Fin 0) (Fin 0))\<rparr>))"

definition nodeHatched :: node where
  "nodeHatched = fst (construct (opts0\<lparr>o_incubating := Some False\<rparr>))"

definition storeHatched :: "jsnum store" where
  "storeHatched = snd (construct (opts0\<lparr>o_incubating := Some False\<rparr>))"

text \<open>A context without neighbours and region, with the contributions of the demo
  (line 257), and one whose two contributions are finite numbers with an infinite
  sum; draws that leave the jitter at zero, without and with the checkpoint.\<close>

definition ctx0 :: ctx where
  "ctx0 = \<lparr>neighbors = [], spatialNeighbors = None, regionObj = None,
           contributions = [Fin 15, Fin 10], allNodes = (\<lambda>i. None)\<rparr>"

definition ctxHuge :: ctx where
  "ctxHuge = ctx0\<lparr>contributions := [Fin (2 ^ 1023), Fin (2 ^ 1023)]\<rparr>"

definition quiet :: draws where
  "quiet = \<lparr>rBreakthrough = 0.5, rJitterX = 0.5, rJitterY = 0.5, rCheckpoint = 0.5, now = 1\<rparr>"

definition checkpointing :: draws where
  "checkpointing = quiet\<lparr>rCheckpoint := 0.01\<rparr>"

text \<open>What a step with \<open>ctx0\<close> and \<open>quiet\<close> makes of a node at the origin with hue 0.5,
  coherence 50, stagnation 0, mass 1 and velocity \<open>(v, 0, 0)\<close>.\<close>

definition quietResult :: "node \<Rightarrow> real \<Rightarrow> node" where
  "quietResult m v = m\<lparr>proto := ObjectProto, stagnation := Fin 0.05, learningRate := Fin 0,
      entropy := Fin 0.55, growthPotential := Fin 0, acc := zeroVec,
      vel := Vec (Fin (0.98 * v)) (Fin 0) (Fin 0), pos := Vec (Fin (0.98 * v)) (Fin 0) (Fin 0),
      coherence := Fin 100,
      sandbox := (if incubating m then mathMin (mathMin (Fin 10) (sandbox m * Fin 1.006)) (Fin 1.2)
                  else mathMin (Fin 10) (sandbox m * Fin 1.006)),
      observer := False, incubationScore := Fin 0.89775,
      awareness := \<lparr>velocity = Fin 0, alignmentScore = Fin 1, hueConvergence = Fin 1,
                     gazeIntensity = Fin 0, isHappyChallenged = False\<rparr>\<rparr>"

section \<open>Auxiliary facts\<close>

subsection \<open>Numbers: overflow, self-difference, clamp and remainder\<close>

lemma overflowAt_ge: "2 ^ 1023 \<le> overflowAt"
proof -
  have "(2::real) ^ 970 \<le> 2 ^ 1023" by (rule power_increasing) simp_all
  moreover have "(2::real) ^ 1024 = 2 * 2 ^ 1023" by simp
  ultimately show ?thesis unfolding overflowAt_def by linarith
qed

lemma overflowAt_gt_million: "1000000 < overflowAt"
proof -
  have "(2::real) ^ 20 \<le> 2 ^ 1023" by (rule power_increasing) simp_all
  moreover have "(1000000::real) < 2 ^ 20" by simp
  ultimately show ?thesis using overflowAt_ge by linarith
qed

lemma ovf_small: "\<bar>r\<bar> \<le> 1000000 \<Longrightarrow> ovf r = Fin r"
  using overflowAt_gt_million by (auto simp: ovf_def)

lemma ovf_cases: "ovf r = PInf \<or> ovf r = NInf \<or> ovf r = Fin r"
  by (simp add: ovf_def)

lemma ovf_not_NaN: "ovf r \<noteq> NaN"
  by (simp add: ovf_def)

lemma ovf_zero: "ovf 0 = Fin 0"
  by (simp add: ovf_small)

lemma minus_Fin: "Fin a - Fin b = ovf (a - b)"
  by (simp add: minus_jsnum_def)

lemma self_diff: "x - x = Fin 0 \<or> x - x = NaN" for x :: jsnum
  by (cases x) (simp_all add: minus_jsnum_def ovf_zero)

lemma self_diff_Fin: "isFin x \<Longrightarrow> x - x = Fin 0"
  by (cases x) (simp_all add: minus_jsnum_def ovf_zero)

lemma vecDiff_self_set: "set (vecDiff xs xs) \<subseteq> {Fin 0, NaN}"
  using self_diff by (induction xs) auto

lemma vecDiff_self_Fin: "list_all isFin xs \<Longrightarrow> set (vecDiff xs xs) \<subseteq> {Fin 0}"
  by (induction xs) (auto simp: self_diff_Fin)

lemma sum_squares_zero: "set xs \<subseteq> {Fin 0, NaN} \<Longrightarrow> sum_list (map (\<lambda>v. toReal v * toReal v) xs) = 0"
  by (induction xs) auto

lemma hypotN_zeros: "set xs \<subseteq> {Fin 0, NaN} \<Longrightarrow> hypotN xs = (if NaN \<in> set xs then NaN else Fin 0)"
  by (auto simp: hypotN_def sum_squares_zero ovf_zero)

lemma hypotN_vecDiff_self: "hypotN (vecDiff xs xs) = Fin 0 \<or> hypotN (vecDiff xs xs) = NaN"
  using hypotN_zeros[OF vecDiff_self_set, of xs] by auto

lemma hypotN_vecDiff_self_Fin: "list_all isFin xs \<Longrightarrow> hypotN (vecDiff xs xs) = Fin 0"
  using hypotN_zeros[OF vecDiff_self_set, of xs] vecDiff_self_Fin[of xs] by auto

lemma clampN_NaN: "clampN NaN a b = NaN"
  by (cases b; cases a) (simp_all add: clampN_def)

lemma clampN_range:
  assumes "a \<le> b" and "v \<noteq> NaN"
  shows "\<exists>r. clampN v (Fin a) (Fin b) = Fin r \<and> a \<le> r \<and> r \<le> b"
  using assms by (cases v) (auto simp: clampN_def)

lemma clampN_cases:
  assumes "a \<le> b"
  shows "clampN v (Fin a) (Fin b) = NaN \<or> (\<exists>r. clampN v (Fin a) (Fin b) = Fin r \<and> a \<le> r \<and> r \<le> b)"
  using clampN_range[OF assms, of v] clampN_NaN by (cases "v = NaN") auto

lemma jsrem_one_nonneg: "0 \<le> a \<Longrightarrow> 0 \<le> jsrem a 1 \<and> jsrem a 1 < 1"
  unfolding jsrem_def by simp linarith



lemma jsremN_one_nonneg: "0 \<le> a \<Longrightarrow> \<exists>r. jsremN (Fin a) (Fin 1) = Fin r \<and> 0 \<le> r \<and> r < 1"
  using jsrem_one_nonneg by simp

subsection \<open>Numbers: how NaN spreads; the learning rate\<close>

lemma overflowAt_pos: "0 < overflowAt"
  using overflowAt_gt_million by linarith

lemma zero_times: "Fin 0 * f = Fin 0 \<or> Fin 0 * f = NaN"
  by (cases f) (simp_all add: ovf_zero infOf_def)

lemma zero_times_Fin: "isFin f \<Longrightarrow> Fin 0 * f = Fin 0"
  by (cases f) (simp_all add: ovf_zero)

lemma NaN_times: "NaN * f = NaN" "f * NaN = NaN"
  by (cases f; simp)+

lemma NaN_div: "NaN / f = NaN" "f / NaN = NaN"
  by (cases f; simp)+

lemma NaN_plus: "NaN + f = NaN" "f + NaN = NaN"
  by (cases f; simp)+

lemma NaN_minus: "NaN - f = NaN" "f - NaN = NaN"
  by (cases f; simp add: minus_jsnum_def)+

lemma plus_Fin_nn: "x \<noteq> NaN \<Longrightarrow> x + Fin a \<noteq> NaN" "x \<noteq> NaN \<Longrightarrow> Fin a + x \<noteq> NaN"
  by (cases x; simp add: ovf_not_NaN)+

lemma Fin_minus_nn: "x \<noteq> NaN \<Longrightarrow> Fin a - x \<noteq> NaN"
  by (cases x; simp add: minus_jsnum_def ovf_not_NaN)

lemma times_pos_nn: "x \<noteq> NaN \<Longrightarrow> 0 < k \<Longrightarrow> x * Fin k \<noteq> NaN"
  by (cases x; simp add: ovf_not_NaN infOf_def)

lemma div_pos_nn: "x \<noteq> NaN \<Longrightarrow> 0 < k \<Longrightarrow> x / Fin k \<noteq> NaN"
  by (cases x; simp add: ovf_not_NaN infOf_def)

text \<open>The learning rate is the velocity times a factor that is finite when the sum of the contributions is.\<close>

lemma learningRate_cases:
  assumes "v = Fin 0 \<or> v = NaN"
  shows "v * f = Fin 0 \<or> v * f = NaN"
  using assms zero_times[of f] NaN_times(1)[of f] by auto

lemma plus_isFin_bounded:
  assumes "isFin (a + b)"
  shows "\<exists>r. a + b = Fin r \<and> \<bar>r\<bar> < overflowAt"
proof -
  from assms obtain x y where "a = Fin x" "b = Fin y"
    by (cases a; cases b; simp)
  then show ?thesis using assms overflowAt_pos by (simp add: ovf_def abs_less_iff split: if_splits)
qed

lemma sumArrN_snoc: "sumArrN (ys @ [y]) = sumArrN ys + y"
  by (simp add: sumArrN_def)

lemma sumArrN_bounded:
  assumes "isFin (sumArrN cs)" and "cs \<noteq> []"
  shows "\<exists>r. sumArrN cs = Fin r \<and> \<bar>r\<bar> < overflowAt"
proof -
  from assms(2) obtain ys y where "cs = ys @ [y]" by (cases cs rule: rev_cases) auto
  then show ?thesis using assms(1) plus_isFin_bounded by (simp add: sumArrN_snoc)
qed

lemma abs_div_ge1: "1 \<le> k \<Longrightarrow> \<bar>x / k\<bar> \<le> \<bar>x\<bar>" for x k :: real
proof -
  assume k: "1 \<le> k"
  then have "\<bar>x\<bar> / k \<le> \<bar>x\<bar> / 1" by (intro divide_left_mono) simp_all
  then show ?thesis using k by simp
qed

lemma div_Fin: "b \<noteq> 0 \<Longrightarrow> Fin a / Fin b = ovf (a / b)"
  by simp

lemma ovf_id: "\<bar>x\<bar> < overflowAt \<Longrightarrow> ovf x = Fin x"
  by (simp add: ovf_def abs_less_iff)

lemma learnFactor_isFin:
  assumes "isFin (sumArrN cs)"
  shows "isFin (if length cs \<noteq> 0 then avgN cs / Fin 10 else Fin 0.3)"
proof (cases "cs = []")
  case True
  then show ?thesis by simp
next
  case False
  then obtain r where r: "sumArrN cs = Fin r" "\<bar>r\<bar> < overflowAt"
    using sumArrN_bounded[OF assms] by blast
  have len: "1 \<le> real (length cs)" using False by (cases cs) auto
  have "\<bar>r / real (length cs)\<bar> \<le> \<bar>r\<bar>" using len by (rule abs_div_ge1)
  then have a: "\<bar>r / real (length cs)\<bar> < overflowAt" using r(2) by (rule le_less_trans)
  have "\<bar>r / real (length cs) / 10\<bar> \<le> \<bar>r / real (length cs)\<bar>" by (rule abs_div_ge1) simp
  then have b: "\<bar>r / real (length cs) / 10\<bar> < overflowAt" using a by (rule le_less_trans)
  have "avgN cs = Fin (r / real (length cs))"
    using False by (simp add: avgN_def r(1) ovf_id[OF a])
  moreover have "Fin (r / real (length cs)) / Fin 10 = Fin (r / real (length cs) / 10)"
  proof -
    have ten: "(10::real) \<noteq> 0" by simp
    have "Fin (r / real (length cs)) / Fin 10 = ovf (r / real (length cs) / 10)"
      using ten by (rule div_Fin)
    also have "\<dots> = Fin (r / real (length cs) / 10)" using b by (rule ovf_id)
    finally show ?thesis .
  qed
  ultimately show ?thesis using False by simp
qed

text \<open>Stagnation after line 117.\<close>

lemma stagnation_range:
  assumes "s \<noteq> NaN"
  shows "\<exists>t. clampN (s + (if v < Fin 0.001 then Fin 0.05 else Fin (- 0.04))) (Fin 0) (Fin 1) = Fin t \<and> 0 \<le> t \<and> t \<le> 1"
proof -
  have "s + (if v < Fin 0.001 then Fin 0.05 else Fin (- 0.04)) \<noteq> NaN"
    using assms plus_Fin_nn(1) by simp
  then show ?thesis by (intro clampN_range) simp_all
qed

subsection \<open>The phases of the step\<close>

lemma stateVector_spreadCopy: "stateVector (spreadCopy node) = stateVector node"
  by (simp add: stateVector_def spreadCopy_def)

lemma velocityOf_self: "velocityOf node (spreadCopy node) h = hypotN (vecDiff (stateVector node) (stateVector node))"
  by (simp add: velocityOf_def Let_def stateVector_spreadCopy)

lemma velocityOf_cases: "velocityOf node (spreadCopy node) h = Fin 0 \<or> velocityOf node (spreadCopy node) h = NaN"
  unfolding velocityOf_self by (rule hypotN_vecDiff_self)

lemma velocityOf_zero: "list_all isFin (stateVector node) \<Longrightarrow> velocityOf node (spreadCopy node) h = Fin 0"
  unfolding velocityOf_self by (rule hypotN_vecDiff_self_Fin)

lemma evolveBody_cases:
  obtains v n1 n2 bnd n3 h1 hT0 hH h2 hT n4 n5 n6 n7 h3 where
    "v = velocityOf node (spreadCopy node) h"
    "n1 = dynamics v (contributions c) (spreadCopy node)"
    "n2 = alignment (neighbors c) n1"
    "hueBand (neighbors c) (regionObj c) n2 h = (bnd, n3, h1)"
    "horizonPull (regionObj c) n3 h1 = (hT0, hH, h2)"
    "breakthrough d hT0 hH n3 = (hT, n4)"
    "n5 = integrate d (regionField (regionObj c) n3 (neighborForce c n3)) n4"
    "n6 = coherenceSandbox (contributions c) n5"
    "incubation n6 h2 = (n7, h3)"
    "evolveBody node c d h = (n7\<lparr>awareness := awarenessOf v bnd (observerGaze c n5) hT n7\<rparr>, h3)"
proof -
  define v where "v = velocityOf node (spreadCopy node) h"
  define n1 where "n1 = dynamics v (contributions c) (spreadCopy node)"
  define n2 where "n2 = alignment (neighbors c) n1"
  obtain bnd n3 h1 where hb: "hueBand (neighbors c) (regionObj c) n2 h = (bnd, n3, h1)"
    by (metis prod_cases3)
  obtain hT0 hH h2 where hp: "horizonPull (regionObj c) n3 h1 = (hT0, hH, h2)"
    by (metis prod_cases3)
  obtain hT n4 where bt: "breakthrough d hT0 hH n3 = (hT, n4)"
    by (metis surj_pair)
  define n5 where "n5 = integrate d (regionField (regionObj c) n3 (neighborForce c n3)) n4"
  define n6 where "n6 = coherenceSandbox (contributions c) n5"
  obtain n7 h3 where inc: "incubation n6 h2 = (n7, h3)"
    by (metis surj_pair)
  have "evolveBody node c d h = (n7\<lparr>awareness := awarenessOf v bnd (observerGaze c n5) hT n7\<rparr>, h3)"
    unfolding evolveBody_def Let_def
    using hb hp bt inc by (simp add: v_def n1_def n2_def n5_def n6_def)
  then show thesis
    using that v_def n1_def n2_def hb hp bt n5_def n6_def inc by blast
qed

lemma evolveBodyI:
  assumes "velocityOf node (spreadCopy node) h = v"
    and "dynamics v (contributions c) (spreadCopy node) = n1"
    and "alignment (neighbors c) n1 = n2"
    and "hueBand (neighbors c) (regionObj c) n2 h = (bnd, n3, h1)"
    and "horizonPull (regionObj c) n3 h1 = (hT0, hH, h2)"
    and "breakthrough d hT0 hH n3 = (hT, n4)"
    and "integrate d (regionField (regionObj c) n3 (neighborForce c n3)) n4 = n5"
    and "coherenceSandbox (contributions c) n5 = n6"
    and "incubation n6 h2 = (n7, h3)"
  shows "evolveBody node c d h = (n7\<lparr>awareness := awarenessOf v bnd (observerGaze c n5) hT n7\<rparr>, h3)"
  unfolding evolveBody_def Let_def using assms by simp

text \<open>Each phase changes only the fields it assigns.\<close>

lemma dynamics_shape:
  "dynamics v cs n = n\<lparr>stagnation := stagnation (dynamics v cs n), learningRate := learningRate (dynamics v cs n),
     entropy := entropy (dynamics v cs n), growthPotential := growthPotential (dynamics v cs n)\<rparr>"
  by (simp add: dynamics_def Let_def)

lemma dynamics_fields:
  "stagnation (dynamics v cs n) = clampN (stagnation n + (if v < Fin 0.001 then Fin 0.05 else Fin (- 0.04))) (Fin 0) (Fin 1)"
  "learningRate (dynamics v cs n) = v * (if length cs \<noteq> 0 then avgN cs / Fin 10 else Fin 0.3)"
  "entropy (dynamics v cs n) = clampN ((Fin 1 - coherence n / Fin 100) * (Fin 1 + stagnation (dynamics v cs n) * Fin 2)
                           * (Fin 1 - learningRate (dynamics v cs n))) (Fin 0.1) (Fin 1000)"
  "growthPotential (dynamics v cs n) = entropy (dynamics v cs n) * learningRate (dynamics v cs n) / (stagnation (dynamics v cs n) + Fin 0.1)"
  by (simp_all add: dynamics_def Let_def)

lemma alignment_shape: "alignment nbrs n = n\<lparr>rotation := rotation (alignment nbrs n)\<rparr>"
  by (simp add: alignment_def Let_def)

lemma hueBand_shape:
  assumes "hueBand nbrs ro n h = (b, n', h')"
  shows "\<exists>x. n' = n\<lparr>hue := x\<rparr>" and "floats h' = floats h" and "tokens h' = tokens h"
proof -
  show "\<exists>x. n' = n\<lparr>hue := x\<rparr>"
  proof (cases ro)
    case None
    with assms have "n' = n\<lparr>hue := hue n\<rparr>" by (simp add: hueBand_def)
    then show ?thesis ..
  next
    case (Some r)
    with assms show ?thesis
      by (auto simp: hueBand_def Let_def split: prod.splits)
  qed
  show "floats h' = floats h" "tokens h' = tokens h"
    using assms
    by (auto simp: hueBand_def allowedHueBandN_def Let_def split: option.splits)
qed

lemma horizonPull_idle: "\<not> Fin 1.2 < growthPotential n \<Longrightarrow> horizonPull ro n h = (Fin 0, Fin 0, h)"
  by (simp add: horizonPull_def)

lemma breakthrough_shape:
  assumes "breakthrough d hT hH n = (hT', n')"
  shows "\<exists>e r x. n' = n\<lparr>entropy := e, rotation := r, hue := x\<rparr>"
    and "hue n' = jsremN (hue n + hH + Fin 1) (Fin 1)"
    and "entropy n' = (if Fin 92 < coherence n \<and> Fin 0.8 < stagnation n then entropy n + Fin 0.1 else entropy n)"
proof -
  let ?fired = "Fin 92 < coherence n \<and> Fin 0.8 < stagnation n"
  have "n' = n\<lparr>entropy := (if ?fired then entropy n + Fin 0.1 else entropy n), rotation := rotation n + hT',
                 hue := jsremN (hue n + hH + Fin 1) (Fin 1)\<rparr>"
    using assms by (auto simp: breakthrough_def Let_def)
  then show "\<exists>e r x. n' = n\<lparr>entropy := e, rotation := r, hue := x\<rparr>"
    and "hue n' = jsremN (hue n + hH + Fin 1) (Fin 1)"
    and "entropy n' = (if ?fired then entropy n + Fin 0.1 else entropy n)"
    by (blast, simp, simp)
qed

lemma integrate_shape:
  "\<exists>a v p. integrate d f n = n\<lparr>acc := a, vel := v, pos := p\<rparr>"
  by (simp add: integrate_def Let_def) blast

lemma coherenceSandbox_shape:
  "\<exists>s ob. coherenceSandbox cs n =
     n\<lparr>coherence := clampN (Fin 10 * sumArrN cs / (entropy n + Fin 1) * (Fin 1 + Fin 0.01 * growthPotential n)) (Fin 0) (Fin 100),
       sandbox := s, observer := ob\<rparr>"
  by (simp add: coherenceSandbox_def Let_def) blast

lemma incubation_shape:
  assumes "incubation n h = (n', h')"
  shows "\<exists>sc inc sb. n' = n\<lparr>incubationScore := sc, incubating := inc, sandbox := sb\<rparr>"
    and "tokens h' = tokens h" and "meanTheta h' = meanTheta h"
proof -
  from assms have "n' = n\<lparr>incubationScore := incubationScore n', incubating := incubating n', sandbox := sandbox n'\<rparr>"
    by (auto simp: incubation_def Let_def split: if_splits)
  then show "\<exists>sc inc sb. n' = n\<lparr>incubationScore := sc, incubating := inc, sandbox := sb\<rparr>" by blast
  from assms show "tokens h' = tokens h" "meanTheta h' = meanTheta h"
    by (auto simp: incubation_def Let_def)
qed

lemma incubation_incubating:
  assumes "incubation n h = (n', h')"
  shows "incubating n' = (incubating n \<and> \<not> (Fin 0.85 < avgN (floats h' (incubationHistory n)) \<and> Fin 1.0 < growthPotential n))"
  using assms by (auto simp: incubation_def Let_def split: if_splits)


subsection \<open>Growth potential and entropy\<close>


text \<open>Growth potential (line 124).\<close>

lemma growth_zero:
  assumes "0.1 \<le> r" and "0 \<le> t" and "t \<le> 1"
  shows "Fin r * Fin 0 / (Fin t + Fin 0.1) = Fin 0"
proof -
  have a: "Fin r * Fin 0 = Fin 0" by (simp add: ovf_zero)
  have "\<bar>t + 0.1\<bar> \<le> 1000000" using assms by simp
  then have b: "Fin t + Fin 0.1 = Fin (t + 0.1)" by (simp add: ovf_small)
  have "t + 0.1 \<noteq> 0" using assms by simp
  then have "Fin 0 / Fin (t + 0.1) = Fin 0" by (simp add: ovf_zero)
  then show ?thesis unfolding a b .
qed

lemma growth_cases:
  assumes lr: "lr = Fin 0 \<or> lr = NaN"
    and e: "e = NaN \<or> (\<exists>r. e = Fin r \<and> 0.1 \<le> r \<and> r \<le> 1000)"
    and s: "s = NaN \<or> (\<exists>t. s = Fin t \<and> 0 \<le> t \<and> t \<le> 1)"
  shows "e * lr / (s + Fin 0.1) = Fin 0 \<or> e * lr / (s + Fin 0.1) = NaN"
proof (cases "lr = Fin 0 \<and> e \<noteq> NaN \<and> s \<noteq> NaN")
  case True
  then obtain r t where "e = Fin r" "0.1 \<le> r" "s = Fin t" "0 \<le> t" "t \<le> 1"
    using e s by auto
  then show ?thesis using True growth_zero[of r t] by simp
next
  case False
  then consider "lr = NaN" | "e = NaN" | "s = NaN" using lr by auto
  then show ?thesis
    by cases (simp_all add: NaN_times NaN_div NaN_plus)
qed

text \<open>Entropy (line 121): when it is not \<open>NaN\<close>, and its size when the breakthrough fires.\<close>

lemma stag_factor: "0 \<le> t \<Longrightarrow> t \<le> 1 \<Longrightarrow> Fin 1 + Fin t * Fin 2 = Fin (1 + t * 2)"
  by (simp add: ovf_small)

lemma one_minus_zero: "Fin 1 - Fin 0 = Fin 1"
  by (simp add: minus_jsnum_def ovf_small)

lemma entropy_product_nn:
  assumes "coh \<noteq> NaN" and "0 \<le> t" and "t \<le> 1"
  shows "(Fin 1 - coh / Fin 100) * (Fin 1 + Fin t * Fin 2) * (Fin 1 - Fin 0) \<noteq> NaN"
proof -
  have a: "Fin 1 - coh / Fin 100 \<noteq> NaN"
    using assms(1) by (intro Fin_minus_nn div_pos_nn) simp_all
  have k: "0 < 1 + t * 2" using assms(2) by simp
  have c: "(Fin 1 - coh / Fin 100) * Fin (1 + t * 2) \<noteq> NaN"
    using a k by (rule times_pos_nn)
  have "(Fin 1 - coh / Fin 100) * Fin (1 + t * 2) * Fin 1 \<noteq> NaN"
    using c by (rule times_pos_nn) simp
  then show ?thesis unfolding stag_factor[OF assms(2,3)] one_minus_zero .
qed






subsection \<open>Hue, sandbox, position, coherence\<close>







text \<open>Position (line 190): the rescaled position has length 475, or 0 or \<open>NaN\<close> when the length was infinite.\<close>

lemma not_gt_cases: "\<not> Fin a < x \<Longrightarrow> x = NaN \<or> x \<le> Fin a"
  by (cases x) simp_all

lemma times_zero_right: "w * Fin 0 = Fin 0 \<or> w * Fin 0 = NaN"
  by (cases w) (simp_all add: ovf_zero infOf_def)

lemma zeroish_times: "w = Fin 0 \<or> w = NaN \<Longrightarrow> w * Fin k = Fin 0 \<or> w * Fin k = NaN"
  by (auto simp: ovf_zero)

lemma zeroish_orZero: "w = Fin 0 \<or> w = NaN \<Longrightarrow> orZero w = Fin 0"
  by (auto simp: orZero_def)

lemma orZero_Fin: "orZero (Fin q) = Fin q"
  by (simp add: orZero_def)

lemma vlenN_zeroish:
  assumes "a = Fin 0 \<or> a = NaN" and "b = Fin 0 \<or> b = NaN" and "c = Fin 0 \<or> c = NaN"
  shows "vlenN (Vec a b c) = NaN \<or> vlenN (Vec a b c) = Fin 0"
proof -
  have "set [a, b, orZero c] \<subseteq> {Fin 0, NaN}" using assms zeroish_orZero[OF assms(3)] by auto
  from hypotN_zeros[OF this] show ?thesis by (simp add: vlenN_def split: if_splits)
qed

lemma rescale_inf:
  assumes "vlenN P = PInf"
  shows "vlenN (vscaleN (vnormN P) (Fin 475)) = NaN \<or> vlenN (vscaleN (vnormN P) (Fin 475)) = Fin 0"
proof -
  obtain x y z where P: "P = Vec x y z" by (cases P)
  have n: "vnormN P = Vec (x * Fin 0) (y * Fin 0) (orZero z * Fin 0)"
    using assms by (simp add: vnormN_def Let_def vscaleN_def P)
  have s: "vscaleN (vnormN P) (Fin 475) = Vec (x * Fin 0 * Fin 475) (y * Fin 0 * Fin 475) (orZero (orZero z * Fin 0) * Fin 475)"
    unfolding n by (simp add: vscaleN_def)
  have "orZero (orZero z * Fin 0) = Fin 0" using times_zero_right by (rule zeroish_orZero)
  then have c: "orZero (orZero z * Fin 0) * Fin 475 = Fin 0" by (simp add: ovf_zero)
  show ?thesis unfolding s c
    by (rule vlenN_zeroish) (use times_zero_right zeroish_times in blast)+
qed

lemma abs_le_sqrt_sum: "\<bar>a\<bar> \<le> sqrt (a * a + b * b + c * c)" for a b c :: real
proof -
  have "sqrt (a * a) \<le> sqrt (a * a + b * b + c * c)"
    by (rule real_sqrt_le_mono) simp
  then show ?thesis by simp
qed

lemma unit_scaled:
  assumes "0 < L" and "L = sqrt (a * a + b * b + c * c)"
  shows "sqrt (a / L * 475 * (a / L * 475) + b / L * 475 * (b / L * 475) + c / L * 475 * (c / L * 475)) = 475"
proof -
  have S: "a * a + b * b + c * c = L * L"
  proof -
    have "0 \<le> a * a + b * b + c * c" by simp
    have "sqrt (a * a + b * b + c * c) * sqrt (a * a + b * b + c * c) = \<bar>a * a + b * b + c * c\<bar>"
      by (rule real_sqrt_mult_self)
    then show ?thesis unfolding assms(2) by simp
  qed
  have e: "q / L * 475 * (q / L * 475) = 475 * 475 * (q * q / (L * L))" for q
    by simp
  have "a / L * 475 * (a / L * 475) + b / L * 475 * (b / L * 475) + c / L * 475 * (c / L * 475)
      = 475 * 475 * ((a * a + b * b + c * c) / (L * L))"
    unfolding e by (simp add: add_divide_distrib)
  also have "\<dots> = 475 * 475" using assms(1) unfolding S by simp
  finally show ?thesis using real_sqrt_abs2[of 475] by simp
qed

lemma hypotN_Fin3: "hypotN [Fin p, Fin q, Fin r] = ovf (sqrt (p * p + q * q + r * r))"
  by (simp add: hypotN_def add.assoc)

lemma rescale_fin:
  assumes "vlenN P = Fin L" and "500 < L"
  shows "vlenN (vscaleN (vnormN P) (Fin 475)) = Fin 475"
proof -
  obtain x y z where P: "P = Vec x y z" by (cases P)
  have h: "hypotN [x, y, orZero z] = Fin L" using assms(1) by (simp add: vlenN_def P)
  then obtain a b c where abc: "x = Fin a" "y = Fin b" "orZero z = Fin c"
    by (cases x; cases y; cases "orZero z"; simp add: hypotN_def)
  have L: "L = sqrt (a * a + b * b + c * c)"
    using h unfolding abc by (simp add: hypotN_def ovf_def add.assoc split: if_splits)
  have Lpos: "0 < L" using assms(2) by simp
  have inv: "Fin 1 / Fin L = Fin (1 / L)"
  proof -
    have "\<bar>1 / L\<bar> \<le> 1000000" using assms(2) by (simp add: field_simps)
    then have "ovf (1 / L) = Fin (1 / L)" by (rule ovf_small)
    then show ?thesis using Lpos by simp
  qed
  have comp: "Fin q * Fin (1 / L) = Fin (q / L)" if "\<bar>q\<bar> \<le> L" for q
  proof -
    have "\<bar>q / L\<bar> \<le> 1" using that Lpos by simp
    then have "ovf (q / L) = Fin (q / L)" by (intro ovf_small) simp
    then show ?thesis by simp
  qed
  have sc: "Fin (q / L) * Fin 475 = Fin (q / L * 475)" if "\<bar>q\<bar> \<le> L" for q
  proof -
    define r where "r = q / L"
    have "\<bar>r\<bar> \<le> 1" unfolding r_def using that Lpos by simp
    moreover have "\<bar>r * 475\<bar> = \<bar>r\<bar> * 475" by (simp add: abs_mult)
    ultimately have "\<bar>r * 475\<bar> \<le> 1000000" by linarith
    then have "\<bar>q / L * 475\<bar> \<le> 1000000" unfolding r_def .
    then have "ovf (q / L * 475) = Fin (q / L * 475)" by (rule ovf_small)
    then show ?thesis by simp
  qed
  have la: "\<bar>a\<bar> \<le> L" unfolding L by (rule abs_le_sqrt_sum)
  have lb: "\<bar>b\<bar> \<le> L" unfolding L using abs_le_sqrt_sum[of b a c] by (simp add: add.commute)
  have lc: "\<bar>c\<bar> \<le> L" unfolding L using abs_le_sqrt_sum[of c a b] by (simp add: add.commute add.left_commute)
  have t: "truthy (Fin L)" using Lpos by simp
  have n: "vnormN P = Vec (Fin (a / L)) (Fin (b / L)) (Fin (c / L))"
    unfolding vnormN_def Let_def assms(1) using t
    by (simp only: if_True vscaleN_def P vec.sel abc inv comp[OF la] comp[OF lb] comp[OF lc])
  have s: "vscaleN (vnormN P) (Fin 475) = Vec (Fin (a / L * 475)) (Fin (b / L * 475)) (Fin (c / L * 475))"
    unfolding n by (simp only: vscaleN_def vec.sel orZero_Fin sc[OF la] sc[OF lb] sc[OF lc])
  have "vlenN (vscaleN (vnormN P) (Fin 475))
      = ovf (sqrt (a / L * 475 * (a / L * 475) + b / L * 475 * (b / L * 475) + c / L * 475 * (c / L * 475)))"
    unfolding s vlenN_def vec.sel orZero_Fin by (rule hypotN_Fin3)
  also have "\<dots> = Fin 475" unfolding unit_scaled[OF Lpos L] by (simp add: ovf_small)
  finally show ?thesis .
qed

lemma rescale_pos:
  assumes "Fin 500 < vlenN P"
  shows "vlenN (vscaleN (vnormN P) (Fin 475)) = NaN \<or> vlenN (vscaleN (vnormN P) (Fin 475)) \<le> Fin 500"
proof (cases "vlenN P")
  case PInf
  from rescale_inf[OF this] show ?thesis by auto
next
  case (Fin L)
  then have "500 < L" using assms by simp
  from rescale_fin[OF Fin this] show ?thesis by simp
next
  case NaN
  then show ?thesis using assms by simp
next
  case NInf
  then show ?thesis using assms by simp
qed

lemma integrate_form:
  "\<exists>m. integrate d f n = (if Fin 500 < vlenN (pos m) then m\<lparr>pos := vscaleN (vnormN (pos m)) (Fin 475)\<rparr> else m)"
  unfolding integrate_def Let_def by (rule exI) (rule refl)

lemma integrate_pos:
  "vlenN (pos (integrate d f n)) = NaN \<or> vlenN (pos (integrate d f n)) \<le> Fin 500"
proof -
  obtain m where m: "integrate d f n = (if Fin 500 < vlenN (pos m) then m\<lparr>pos := vscaleN (vnormN (pos m)) (Fin 475)\<rparr> else m)"
    using integrate_form by blast
  define P where "P = pos m"
  have P: "pos (integrate d f n) = (if Fin 500 < vlenN P then vscaleN (vnormN P) (Fin 475) else P)"
    unfolding m P_def by simp
  show ?thesis
  proof (cases "Fin 500 < vlenN P")
    case True
    then show ?thesis using rescale_pos[OF True] P by simp
  next
    case False
    then show ?thesis using not_gt_cases[OF False] P by simp
  qed
qed

text \<open>Coherence (line 212).\<close>

lemma clampN_NaN_or_range:
  assumes "a \<le> b"
  shows "clampN v (Fin a) (Fin b) = NaN \<or> (Fin a \<le> clampN v (Fin a) (Fin b) \<and> clampN v (Fin a) (Fin b) \<le> Fin b)"
  using clampN_cases[OF assms, of v] by auto

lemma coherenceSandbox_coherence:
  "coherence (coherenceSandbox cs n) = NaN
   \<or> (Fin 0 \<le> coherence (coherenceSandbox cs n) \<and> coherence (coherenceSandbox cs n) \<le> Fin 100)"
proof -
  obtain x where "coherence (coherenceSandbox cs n) = clampN x (Fin 0) (Fin 100)"
    by (simp add: coherenceSandbox_def Let_def)
  then show ?thesis using clampN_NaN_or_range[of 0 100 x] by simp
qed

text \<open>Entropy after line 175.\<close>

lemma entropy_NaN_lr: "clampN (X * Y * (Fin 1 - NaN)) a b = NaN"
  by (simp add: NaN_minus NaN_times clampN_NaN)


subsection \<open>One step: what it leaves unchanged and what it bounds\<close>

lemma dynamics_cases:
  assumes "v = Fin 0 \<or> v = NaN"
  shows "learningRate (dynamics v cs n) = Fin 0 \<or> learningRate (dynamics v cs n) = NaN"
    and "growthPotential (dynamics v cs n) = Fin 0 \<or> growthPotential (dynamics v cs n) = NaN"
proof -
  show lr: "learningRate (dynamics v cs n) = Fin 0 \<or> learningRate (dynamics v cs n) = NaN"
    unfolding dynamics_fields(2) using assms by (rule learningRate_cases)
  have e: "entropy (dynamics v cs n) = NaN
      \<or> (\<exists>r. entropy (dynamics v cs n) = Fin r \<and> 0.1 \<le> r \<and> r \<le> 1000)"
    unfolding dynamics_fields(3) by (rule clampN_cases) simp
  have s: "stagnation (dynamics v cs n) = NaN
      \<or> (\<exists>t. stagnation (dynamics v cs n) = Fin t \<and> 0 \<le> t \<and> t \<le> 1)"
    unfolding dynamics_fields(1) by (rule clampN_cases) simp
  show "growthPotential (dynamics v cs n) = Fin 0 \<or> growthPotential (dynamics v cs n) = NaN"
    unfolding dynamics_fields(4) using lr e s by (rule growth_cases)
qed

lemma dynamics_zero:
  assumes "isFin (sumArrN cs)" and "coherence n \<noteq> NaN" and "stagnation n \<noteq> NaN"
  shows "learningRate (dynamics (Fin 0) cs n) = Fin 0"
    and "growthPotential (dynamics (Fin 0) cs n) = Fin 0"
proof -
  show lr: "learningRate (dynamics (Fin 0) cs n) = Fin 0"
    unfolding dynamics_fields(2) using learnFactor_isFin[OF assms(1)] by (rule zero_times_Fin)
  obtain t where t: "stagnation (dynamics (Fin 0) cs n) = Fin t" "0 \<le> t" "t \<le> 1"
    unfolding dynamics_fields(1) using stagnation_range[OF assms(3)] by blast
  have nn: "(Fin 1 - coherence n / Fin 100) * (Fin 1 + Fin t * Fin 2) * (Fin 1 - Fin 0) \<noteq> NaN"
    using assms(2) t(2,3) by (rule entropy_product_nn)
  have "\<exists>r. clampN ((Fin 1 - coherence n / Fin 100) * (Fin 1 + Fin t * Fin 2) * (Fin 1 - Fin 0)) (Fin 0.1) (Fin 1000) = Fin r
          \<and> 0.1 \<le> r \<and> r \<le> 1000"
    using _ nn by (rule clampN_range) simp
  then obtain r where r: "entropy (dynamics (Fin 0) cs n) = Fin r" "0.1 \<le> r"
    unfolding dynamics_fields(3) t(1) lr by blast
  show "growthPotential (dynamics (Fin 0) cs n) = Fin 0"
    unfolding dynamics_fields(4) r(1) lr t(1) using r(2) t(2,3) by (rule growth_zero)
qed

lemma zeroish_not_gt: "g = Fin 0 \<or> g = NaN \<Longrightarrow> 0 \<le> k \<Longrightarrow> \<not> Fin k < g"
  by auto

lemma evolveBody_facts:
  assumes "evolveBody node c d h = (n', h')"
  shows "proto n' = ObjectProto"
    and "learningRate n' = learningRate (dynamics (velocityOf node (spreadCopy node) h) (contributions c) (spreadCopy node))"
    and "growthPotential n' = growthPotential (dynamics (velocityOf node (spreadCopy node) h) (contributions c) (spreadCopy node))"
    and "velocity (awareness n') = velocityOf node (spreadCopy node) h"
    and "isHappyChallenged (awareness n') = False"
    and "incubating n' = incubating node"
    and "incubationHistory n' = incubationHistory node"
    and "history n' = history node"
    and "tokens h' = tokens h"
    and "coherence n' = NaN \<or> (Fin 0 \<le> coherence n' \<and> coherence n' \<le> Fin 100)"
    and "stagnation n' = clampN (stagnation node + (if velocityOf node (spreadCopy node) h < Fin 0.001 then Fin 0.05 else Fin (- 0.04))) (Fin 0) (Fin 1)"
    and "vlenN (pos n') = NaN \<or> vlenN (pos n') \<le> Fin 500"
    and "entropy n' = (if Fin 92 < coherence node \<and> Fin 0.8 < stagnation n'
           then entropy (dynamics (velocityOf node (spreadCopy node) h) (contributions c) (spreadCopy node)) + Fin 0.1
           else entropy (dynamics (velocityOf node (spreadCopy node) h) (contributions c) (spreadCopy node)))"
    and "coherence n' = clampN (Fin 10 * sumArrN (contributions c) / (entropy n' + Fin 1)
                                 * (Fin 1 + Fin 0.01 * growthPotential n')) (Fin 0) (Fin 100)"
proof -
  obtain v n1 n2 bnd n3 h1 hT0 hH h2 hT n4 n5 n6 n7 h3 where
    v: "v = velocityOf node (spreadCopy node) h" and
    n1: "n1 = dynamics v (contributions c) (spreadCopy node)" and
    n2: "n2 = alignment (neighbors c) n1" and
    hb: "hueBand (neighbors c) (regionObj c) n2 h = (bnd, n3, h1)" and
    hp: "horizonPull (regionObj c) n3 h1 = (hT0, hH, h2)" and
    bt: "breakthrough d hT0 hH n3 = (hT, n4)" and
    n5: "n5 = integrate d (regionField (regionObj c) n3 (neighborForce c n3)) n4" and
    n6: "n6 = coherenceSandbox (contributions c) n5" and
    inc: "incubation n6 h2 = (n7, h3)" and
    res: "evolveBody node c d h = (n7\<lparr>awareness := awarenessOf v bnd (observerGaze c n5) hT n7\<rparr>, h3)"
    by (rule evolveBody_cases)
  from res assms have n': "n' = n7\<lparr>awareness := awarenessOf v bnd (observerGaze c n5) hT n7\<rparr>"
    and h': "h' = h3" by simp_all
  have vc: "v = Fin 0 \<or> v = NaN" unfolding v by (rule velocityOf_cases)
  define s1 where "s1 = stagnation n1"
  define l1 where "l1 = learningRate n1"
  define en1 where "en1 = entropy n1"
  define g1 where "g1 = growthPotential n1"
  have e1: "n1 = (spreadCopy node)\<lparr>stagnation := s1, learningRate := l1, entropy := en1, growthPotential := g1\<rparr>"
    unfolding s1_def l1_def en1_def g1_def n1 by (rule dynamics_shape)
  have gc: "g1 = Fin 0 \<or> g1 = NaN" unfolding g1_def n1 using vc by (rule dynamics_cases(2))
  obtain r2 where e2: "n2 = n1\<lparr>rotation := r2\<rparr>"
    unfolding n2 using alignment_shape by blast
  obtain x3 where e3: "n3 = n2\<lparr>hue := x3\<rparr>"
    using hueBand_shape(1)[OF hb] by blast
  have g3: "growthPotential n3 = g1" by (simp add: e3 e2 e1)
  have ng3: "\<not> Fin 1.2 < growthPotential n3" unfolding g3 using gc by (rule zeroish_not_gt) simp
  have "(hT0, hH, h2) = (Fin 0, Fin 0, h1)"
    unfolding hp[symmetric] using ng3 by (rule horizonPull_idle)
  then have hp': "hT0 = Fin 0" "hH = Fin 0" "h2 = h1" by simp_all
  obtain e4v r4 x4 where e4: "n4 = n3\<lparr>entropy := e4v, rotation := r4, hue := x4\<rparr>"
    using breakthrough_shape(1)[OF bt] by blast
  obtain a5 v5 p5 where e5: "n5 = n4\<lparr>acc := a5, vel := v5, pos := p5\<rparr>"
    unfolding n5 using integrate_shape by blast
  obtain s6 ob6 where e6: "n6 = n5\<lparr>coherence := clampN (Fin 10 * sumArrN (contributions c) / (entropy n5 + Fin 1) * (Fin 1 + Fin 0.01 * growthPotential n5)) (Fin 0) (Fin 100),
       sandbox := s6, observer := ob6\<rparr>"
    unfolding n6 using coherenceSandbox_shape by blast
  obtain sc7 inc7 sb7 where e7: "n7 = n6\<lparr>incubationScore := sc7, incubating := inc7, sandbox := sb7\<rparr>"
    using incubation_shape(1)[OF inc] by blast
  have g6: "growthPotential n6 = g1" by (simp add: e6 e5 e4 e3 e2 e1)
  have ng6: "\<not> Fin 1.0 < growthPotential n6" unfolding g6 using gc by (rule zeroish_not_gt) simp
  have g7: "growthPotential n7 = g1" by (simp add: e7 g6)
  have ng7: "\<not> Fin 1.0 < growthPotential n7" unfolding g7 using gc by (rule zeroish_not_gt) simp
  show "proto n' = ObjectProto" by (simp add: n' e7 e6 e5 e4 e3 e2 e1 spreadCopy_def)
  show "learningRate n' = learningRate (dynamics (velocityOf node (spreadCopy node) h) (contributions c) (spreadCopy node))"
    unfolding v[symmetric] n1[symmetric] l1_def[symmetric] by (simp add: n' e7 e6 e5 e4 e3 e2 e1)
  show "growthPotential n' = growthPotential (dynamics (velocityOf node (spreadCopy node) h) (contributions c) (spreadCopy node))"
    unfolding v[symmetric] n1[symmetric] g1_def[symmetric] by (simp add: n' g7)
  show "velocity (awareness n') = velocityOf node (spreadCopy node) h"
    unfolding v[symmetric] by (simp add: n' awarenessOf_def)
  show "isHappyChallenged (awareness n') = False"
    using ng7 by (simp add: n' awarenessOf_def)
  have "incubating n7 = incubating n6"
    using incubation_incubating[OF inc] ng6 by simp
  then show "incubating n' = incubating node"
    by (simp add: n' e6 e5 e4 e3 e2 e1 spreadCopy_def)
  show "incubationHistory n' = incubationHistory node"
    by (simp add: n' e7 e6 e5 e4 e3 e2 e1 spreadCopy_def)
  show "history n' = history node"
    by (simp add: n' e7 e6 e5 e4 e3 e2 e1 spreadCopy_def)
  show "tokens h' = tokens h"
    using incubation_shape(2)[OF inc] hueBand_shape(3)[OF hb] by (simp add: h' hp')
  have "coherence n' = coherence n6" by (simp add: n' e7)
  then show "coherence n' = NaN \<or> (Fin 0 \<le> coherence n' \<and> coherence n' \<le> Fin 100)"
    unfolding n6 using coherenceSandbox_coherence by simp
  have "stagnation n' = stagnation n1" by (simp add: n' e7 e6 e5 e4 e3 e2 e1)
  also have "\<dots> = clampN (stagnation (spreadCopy node) + (if v < Fin 0.001 then Fin 0.05 else Fin (- 0.04))) (Fin 0) (Fin 1)"
    unfolding n1 by (rule dynamics_fields(1))
  finally show "stagnation n' = clampN (stagnation node + (if velocityOf node (spreadCopy node) h < Fin 0.001 then Fin 0.05 else Fin (- 0.04))) (Fin 0) (Fin 1)"
    unfolding v by (simp add: spreadCopy_def)
  have "pos n' = pos n5" by (simp add: n' e7 e6)
  then show "vlenN (pos n') = NaN \<or> vlenN (pos n') \<le> Fin 500" unfolding n5 using integrate_pos by simp
  have "entropy n' = entropy n4" by (simp add: n' e7 e6 e5)
  also have "\<dots> = (if Fin 92 < coherence n3 \<and> Fin 0.8 < stagnation n3 then entropy n3 + Fin 0.1 else entropy n3)"
    using breakthrough_shape(3)[OF bt] .
  also have "\<dots> = (if Fin 92 < coherence node \<and> Fin 0.8 < stagnation n' then en1 + Fin 0.1 else en1)"
    by (simp add: n' e7 e6 e5 e4 e3 e2 e1 spreadCopy_def)
  finally show "entropy n' = (if Fin 92 < coherence node \<and> Fin 0.8 < stagnation n'
           then entropy (dynamics (velocityOf node (spreadCopy node) h) (contributions c) (spreadCopy node)) + Fin 0.1
           else entropy (dynamics (velocityOf node (spreadCopy node) h) (contributions c) (spreadCopy node)))"
    unfolding en1_def n1 v .
  show "coherence n' = clampN (Fin 10 * sumArrN (contributions c) / (entropy n' + Fin 1)
                                 * (Fin 1 + Fin 0.01 * growthPotential n')) (Fin 0) (Fin 100)"
    by (simp add: n' e7 e6 e5)
qed


lemma evolveNode_Inr:
  assumes "evolveNode node c d h = (Inr n', h')"
  shows "evolveBody node c d h = (n', h')" and "\<not> rCheckpoint d < 0.02"
proof -
  obtain n hh where b: "evolveBody node c d h = (n, hh)" by (metis surj_pair)
  have p: "proto n = ObjectProto" using evolveBody_facts(1)[OF b] .
  show "\<not> rCheckpoint d < 0.02"
    using assms b p by (auto simp: evolveNode_def callSnapshot_def)
  then show "evolveBody node c d h = (n', h')"
    using assms b by (simp add: evolveNode_def)
qed

lemma evolveNode_checkpoint:
  assumes "rCheckpoint d < 0.02"
  shows "evolveNode node c d h = (Inl TypeError, snd (evolveBody node c d h))"
proof -
  obtain n hh where b: "evolveBody node c d h = (n, hh)" by (metis surj_pair)
  have p: "proto n = ObjectProto" using evolveBody_facts(1)[OF b] .
  show ?thesis using assms b p by (simp add: evolveNode_def callSnapshot_def)
qed



subsection \<open>A step with the neutral draws\<close>

lemma evolveNode_quiet:
  "evolveNode node c quiet h = (Inr (fst (evolveBody node c quiet h)), snd (evolveBody node c quiet h))"
  by (simp add: evolveNode_def quiet_def split_def)

lemma ctx0_sel: "neighbors ctx0 = []" "spatialNeighbors ctx0 = None" "regionObj ctx0 = None"
  "contributions ctx0 = [Fin 15, Fin 10]"
  by (simp_all add: ctx0_def)

lemma quiet_sel: "rCheckpoint quiet = 0.5" "rJitterX quiet = 0.5" "rJitterY quiet = 0.5" "rBreakthrough quiet = 0.5"
  by (simp_all add: quiet_def)

lemma jsrem_3_2: "jsrem (3 / 2) 1 = 1 / 2"
  by (simp add: jsrem_def)

lemma vlenN_x: "\<bar>a\<bar> \<le> 1000000 \<Longrightarrow> vlenN (Vec (Fin a) (Fin 0) (Fin 0)) = Fin \<bar>a\<bar>"
  by (simp add: vlenN_def hypotN_def orZero_def ovf_small)

lemma quiet_dynamics:
  assumes "coherence m = Fin 50" "stagnation m = Fin 0"
  shows "dynamics (Fin 0) [Fin 15, Fin 10] (spreadCopy m)
     = m\<lparr>proto := ObjectProto, stagnation := Fin 0.05, learningRate := Fin 0, entropy := Fin 0.55, growthPotential := Fin 0\<rparr>"
  by (simp add: dynamics_def Let_def spreadCopy_def assms clampN_def avgN_def sumArrN_def ovf_small minus_jsnum_def)

lemma quiet_body:
  assumes m: "hue m = Fin 0.5" "coherence m = Fin 50" "stagnation m = Fin 0" "pos m = zeroVec"
      "vel m = Vec (Fin v) (Fin 0) (Fin 0)"
      "mass m = Fin 1" "incubationHistory m = 0" "children m = []" "rotation m = Fin 0"
    and fin: "list_all isFin (stateVector m)"
    and h: "floats h 0 = []" and v: "v = 0 \<or> v = 1"
  shows "evolveBody m ctx0 quiet h = (quietResult m v, h\<lparr>floats := (floats h)(0 := [Fin 0.89775])\<rparr>)"
proof -
  define nA where "nA = m\<lparr>proto := ObjectProto, stagnation := Fin 0.05, learningRate := Fin 0, entropy := Fin 0.55, growthPotential := Fin 0\<rparr>"
  define nB where "nB = nA\<lparr>rotation := rotation m + Fin 0, hue := Fin 0.5\<rparr>"
  define nC where "nC = nB\<lparr>acc := zeroVec, vel := Vec (Fin (0.98 * v)) (Fin 0) (Fin 0), pos := Vec (Fin (0.98 * v)) (Fin 0) (Fin 0)\<rparr>"
  define nD where "nD = nC\<lparr>coherence := Fin 100, sandbox := mathMin (Fin 10) (sandbox m * Fin 1.006), observer := False\<rparr>"
  define nE where "nE = nD\<lparr>incubationScore := Fin 0.89775,
       sandbox := (if incubating m then mathMin (mathMin (Fin 10) (sandbox m * Fin 1.006)) (Fin 1.2)
                   else mathMin (Fin 10) (sandbox m * Fin 1.006))\<rparr>"
  have "evolveBody m ctx0 quiet h =
      (nE\<lparr>awareness := awarenessOf (Fin 0) \<lparr>bandL = None, bandU = None, center = hue nA, halfWidth = Fin 0.5\<rparr>
             (observerGaze ctx0 nC) (Fin 0) nE\<rparr>, h\<lparr>floats := (floats h)(0 := [Fin 0.89775])\<rparr>)"
  proof (rule evolveBodyI)
    show "velocityOf m (spreadCopy m) h = Fin 0" using fin by (rule velocityOf_zero)
    show "dynamics (Fin 0) (contributions ctx0) (spreadCopy m) = nA"
      unfolding ctx0_sel nA_def using m(2,3) by (rule quiet_dynamics)
    show "alignment (neighbors ctx0) nA = nA"
      by (simp add: ctx0_sel alignment_def)
    show "hueBand (neighbors ctx0) (regionObj ctx0) nA h
        = (\<lparr>bandL = None, bandU = None, center = hue nA, halfWidth = Fin 0.5\<rparr>, nA, h)"
      by (simp add: ctx0_sel hueBand_def)
    show "horizonPull (regionObj ctx0) nA h = (Fin 0, Fin 0, h)"
      by (simp add: ctx0_sel horizonPull_def)
    show "breakthrough quiet (Fin 0) (Fin 0) nA = (Fin 0, nB)"
      by (simp add: breakthrough_def Let_def nA_def nB_def m jsrem_3_2 ovf_small)
    have f: "regionField (regionObj ctx0) nA (neighborForce ctx0 nA) = zeroVec"
      by (simp add: ctx0_sel regionField_def neighborForce_def)
    show "integrate quiet (regionField (regionObj ctx0) nA (neighborForce ctx0 nA)) nB = nC"
      unfolding f using v
      by (auto simp: integrate_def Let_def quiet_sel nA_def nB_def nC_def m vscaleN_def vaddN_def vlenN_x
            zeroVec_def orZero_def ovf_small minus_jsnum_def)
    show "coherenceSandbox (contributions ctx0) nC = nD"
      by (simp add: ctx0_sel coherenceSandbox_def Let_def nA_def nB_def nC_def nD_def m clampN_def sumArrN_def ovf_small)
    show "incubation nD h = (nE, h\<lparr>floats := (floats h)(0 := [Fin 0.89775])\<rparr>)"
      by (simp add: incubation_def Let_def nA_def nB_def nC_def nD_def nE_def m h clampN_def avgN_def sumArrN_def
            ovf_small minus_jsnum_def)
  qed
  also have "nE\<lparr>awareness := awarenessOf (Fin 0) \<lparr>bandL = None, bandU = None, center = hue nA, halfWidth = Fin 0.5\<rparr>
             (observerGaze ctx0 nC) (Fin 0) nE\<rparr> = quietResult m v"
    by (simp add: quietResult_def nA_def nB_def nC_def nD_def nE_def m awarenessOf_def observerGaze_def ctx0_sel
          ovf_small minus_jsnum_def)
  finally show ?thesis .
qed

subsection \<open>The constructed nodes and their first step\<close>

lemma construct_node:
  "fst (construct os) = \<lparr>proto = NodeProto, id_n = ''n0'', type_n = ''triangle'', angles = [Fin 60, Fin 60, Fin 60],
     sides = 3, hue = orElse (o_hue os) (Fin 0), rotation = orElse (o_rotation os) (Fin 0 * Fin pi * Fin 2),
     coherence = orElse (o_coherence os) (Fin 50), entropy = orElse (o_entropy os) (Fin 1),
     sandbox = orElse (o_sandbox os) (Fin 1), stagnation = Fin 0, learningRate = Fin 0, growthPotential = Fin 0,
     pos = orElse (o_pos os) (Vec ((Fin 0 - Fin 0.5) * Fin 40) ((Fin 0 - Fin 0.5) * Fin 40) (Fin 0)),
     vel = orElse (o_vel os) zeroVec,
     acc = orElse (o_acc os) zeroVec, mass = orElse (o_mass os) (Fin 1), range_n = orElse (o_range os) (Fin 30),
     fov = orElse (o_fov os) (Fin pi * Fin 0.9), incubating = orElse (o_incubating os) True,
     incubationHistory = 0, incubationScore = Fin 0, children = [], observer = False, region = o_region os,
     awareness = \<lparr>velocity = Fin 0, alignmentScore = Fin 0, hueConvergence = Fin 0, gazeIntensity = Fin 0,
                   isHappyChallenged = False\<rparr>,
     history = 1\<rparr>"
  by (simp add: construct_def newNode_def ctorDraws0_def Let_def)

lemma construct_store:
  "floats (snd (construct os)) = (\<lambda>a. [])" "length (tokens (snd (construct os)) 1) = 1"
  by (simp_all add: construct_def newNode_def snapshot_def emptyStoreN_def Let_def fun_eq_iff)

lemma opts0_sel:
  "o_hue opts0 = Some (Fin 0.5)" "o_rotation opts0 = Some (Fin 0)" "o_coherence opts0 = None" "o_entropy opts0 = None"
  "o_sandbox opts0 = None" "o_pos opts0 = Some zeroVec" "o_vel opts0 = None" "o_acc opts0 = None"
  "o_mass opts0 = None" "o_range opts0 = None" "o_fov opts0 = None" "o_incubating opts0 = None"
  "o_region opts0 = None"
  by (simp_all add: opts0_def noOpts_def)

lemma node0_fields:
  "proto node0 = NodeProto" "hue node0 = Fin 0.5" "coherence node0 = Fin 50" "stagnation node0 = Fin 0"
  "pos node0 = zeroVec" "vel node0 = Vec (Fin 0) (Fin 0) (Fin 0)" "mass node0 = Fin 1" "incubationHistory node0 = 0"
  "children node0 = []" "rotation node0 = Fin 0" "sandbox node0 = Fin 1" "incubating node0 = True"
  "angles node0 = [Fin 60, Fin 60, Fin 60]"
  by (simp_all add: node0_def construct_node opts0_sel orElse_def zeroVec_def)


lemma nodeMoving_fields:
  "hue nodeMoving = Fin 0.5" "coherence nodeMoving = Fin 50" "stagnation nodeMoving = Fin 0"
  "pos nodeMoving = zeroVec" "vel nodeMoving = Vec (Fin 1) (Fin 0) (Fin 0)" "mass nodeMoving = Fin 1"
  "incubationHistory nodeMoving = 0"
  "children nodeMoving = []" "rotation nodeMoving = Fin 0" "angles nodeMoving = [Fin 60, Fin 60, Fin 60]"
  by (simp_all add: nodeMoving_def construct_node opts0_sel orElse_def zeroVec_def)

lemma nodeHatched_fields:
  "hue nodeHatched = Fin 0.5" "coherence nodeHatched = Fin 50" "stagnation nodeHatched = Fin 0"
  "pos nodeHatched = zeroVec" "vel nodeHatched = Vec (Fin 0) (Fin 0) (Fin 0)" "mass nodeHatched = Fin 1"
  "incubationHistory nodeHatched = 0"
  "children nodeHatched = []" "rotation nodeHatched = Fin 0" "sandbox nodeHatched = Fin 1" "incubating nodeHatched = False"
  "angles nodeHatched = [Fin 60, Fin 60, Fin 60]"
  by (simp_all add: nodeHatched_def construct_node opts0_sel orElse_def zeroVec_def)

lemma node0_finite: "list_all isFin (stateVector node0)"
  by (simp add: stateVector_def node0_fields zeroVec_def)

lemma step_node0:
  "evolveNode node0 ctx0 quiet store0 = (Inr (quietResult node0 0), store0\<lparr>floats := (floats store0)(0 := [Fin 0.89775])\<rparr>)"
  using quiet_body[of node0 0 store0] node0_finite
  by (simp add: evolveNode_quiet node0_fields store0_def construct_store)


lemma step_nodeMoving:
  "evolveNode nodeMoving ctx0 quiet storeMoving = (Inr (quietResult nodeMoving 1), storeMoving\<lparr>floats := (floats storeMoving)(0 := [Fin 0.89775])\<rparr>)"
  using quiet_body[of nodeMoving 1 storeMoving]
  by (simp add: evolveNode_quiet nodeMoving_fields storeMoving_def construct_store stateVector_def zeroVec_def)

lemma step_nodeHatched:
  "evolveNode nodeHatched ctx0 quiet storeHatched = (Inr (quietResult nodeHatched 0), storeHatched\<lparr>floats := (floats storeHatched)(0 := [Fin 0.89775])\<rparr>)"
  using quiet_body[of nodeHatched 0 storeHatched]
  by (simp add: evolveNode_quiet nodeHatched_fields storeHatched_def construct_store stateVector_def zeroVec_def)

lemma sqrt_square_098: "sqrt (0.98 * 0.98) = 0.98"
  using real_sqrt_abs2[of "0.98"] by simp

text \<open>The step when the sum of the contributions overflows.\<close>

lemma huge_sum: "sumArrN [Fin (2 ^ 1023), Fin (2 ^ 1023)] = PInf"
proof -
  have a: "ovf (2 ^ 1023) = Fin (2 ^ 1023)"
  proof -
    have "(2::real) ^ 970 < 2 ^ 1023" by (rule power_strict_increasing) simp_all
    moreover have "(2::real) ^ 1024 = 2 * 2 ^ 1023" by simp
    ultimately have "(2::real) ^ 1023 < overflowAt" unfolding overflowAt_def by linarith
    moreover have "- overflowAt < (2::real) ^ 1023" using overflowAt_pos by (simp add: less_trans[of _ 0])
    ultimately show ?thesis by (simp add: ovf_def)
  qed
  have "(2::real) ^ 1023 + 2 ^ 1023 = 2 ^ 1024" by simp
  moreover have "overflowAt \<le> 2 ^ 1024" by (simp add: overflowAt_def)
  ultimately have b: "ovf (2 ^ 1023 + 2 ^ 1023) = PInf" by (simp add: ovf_def)
  have "sumArrN [Fin (2 ^ 1023), Fin (2 ^ 1023)] = Fin 0 + Fin (2 ^ 1023) + Fin (2 ^ 1023)"
    by (simp only: sumArrN_def foldl.simps)
  also have "Fin 0 + Fin (2 ^ 1023) = Fin (2 ^ 1023)" by (simp only: plus_jsnum.simps add_0 a)
  also have "Fin (2 ^ 1023) + Fin (2 ^ 1023) = PInf" by (simp only: plus_jsnum.simps b)
  finally show ?thesis .
qed

lemma huge_learning:
  "learningRate (dynamics (Fin 0) (contributions ctxHuge) n) = NaN"
  "entropy (dynamics (Fin 0) (contributions ctxHuge) n) = NaN"
  "growthPotential (dynamics (Fin 0) (contributions ctxHuge) n) = NaN"
proof -
  have c: "contributions ctxHuge = [Fin (2 ^ 1023), Fin (2 ^ 1023)]" by (simp add: ctxHuge_def)
  have a: "avgN [Fin (2 ^ 1023), Fin (2 ^ 1023)] = PInf"
    unfolding avgN_def huge_sum by (simp add: infOf_def)
  show lr: "learningRate (dynamics (Fin 0) (contributions ctxHuge) n) = NaN"
    unfolding dynamics_fields(2) c a by (simp add: infOf_def)
  show e: "entropy (dynamics (Fin 0) (contributions ctxHuge) n) = NaN"
    unfolding dynamics_fields(3) lr by (rule entropy_NaN_lr)
  show "growthPotential (dynamics (Fin 0) (contributions ctxHuge) n) = NaN"
    unfolding dynamics_fields(4) lr e by (simp add: NaN_div)
qed

lemma step_huge:
  assumes "evolveBody node0 ctxHuge d h = (n', h')"
  shows "learningRate n' = NaN" "growthPotential n' = NaN" "entropy n' = NaN" "coherence n' = NaN"
proof -
  have v: "velocityOf node0 (spreadCopy node0) h = Fin 0" using node0_finite by (rule velocityOf_zero)
  show "learningRate n' = NaN" unfolding evolveBody_facts(2)[OF assms] v by (rule huge_learning)
  show "growthPotential n' = NaN" unfolding evolveBody_facts(3)[OF assms] v by (rule huge_learning)
  show e: "entropy n' = NaN" unfolding evolveBody_facts(13)[OF assms] v huge_learning by simp
  show "coherence n' = NaN" unfolding evolveBody_facts(14)[OF assms] e by (simp add: NaN_div NaN_times clampN_NaN)
qed

subsection \<open>The region methods on exact reals\<close>




lemma kappaWalk_chain:
  "kappaWalk g (Some r) tot wsum =
     (tot + (\<Sum>c\<leftarrow>chain r. walkWeight g c * kappa c), wsum + (\<Sum>c\<leftarrow>chain r. walkWeight g c))"
proof (induction r arbitrary: tot wsum rule: chain.induct)
  case (1 i p k nz ob gen fc fs)
  show ?case
  proof (cases p)
    case None
    then show ?thesis by (simp add: walkWeight_def)
  next
    case (Some pr)
    then show ?thesis using 1[OF Some] by (simp add: walkWeight_def Let_def algebra_simps)
  qed
qed

lemma walkWeight_pos: "0 < walkWeight g c"
  by (simp add: walkWeight_def split: option.splits)

lemma chain_weight_pos: "0 < (\<Sum>c\<leftarrow>chain r. walkWeight g c)"
proof -
  obtain i p k nz ob gen fc fs where r: "r = Region i p k nz ob gen fc fs" by (cases r)
  have "0 \<le> (\<Sum>c\<leftarrow>xs. walkWeight g c)" for xs
    by (induction xs) (simp_all add: less_imp_le[OF walkWeight_pos])
  then show ?thesis
    unfolding r by (simp add: add_pos_nonneg walkWeight_pos)
qed



lemma jsrem_trunc:
  assumes "0 < b"
  shows "\<bar>jsrem a b\<bar> < b" and "0 \<le> a \<Longrightarrow> 0 \<le> jsrem a b" and "\<exists>k::int. jsrem a b = a - b * of_int k"
proof -
  show "\<exists>k::int. jsrem a b = a - b * of_int k" unfolding jsrem_def by blast
  have f: "of_int \<lfloor>a / b\<rfloor> * b \<le> a" "a < (of_int \<lfloor>a / b\<rfloor> + 1) * b"
    using assms by (simp_all add: pos_le_divide_eq[symmetric] pos_divide_less_eq[symmetric])
  have c0: "of_int \<lceil>a / b\<rceil> - 1 < a / b" "a / b \<le> of_int \<lceil>a / b\<rceil>" by linarith+
  have c: "(of_int \<lceil>a / b\<rceil> - 1) * b < a" "a \<le> of_int \<lceil>a / b\<rceil> * b"
    using c0(1) assms apply (simp only: pos_less_divide_eq)
    using c0(2) assms apply (simp only: pos_divide_le_eq)
    done
  show "0 \<le> a \<Longrightarrow> 0 \<le> jsrem a b"
    using f assms by (simp add: jsrem_def algebra_simps)
  show "\<bar>jsrem a b\<bar> < b"
  proof (cases "0 \<le> a / b")
    case True
    then show ?thesis using f assms by (simp add: jsrem_def algebra_simps abs_less_iff)
  next
    case False
    then show ?thesis using c assms by (simp add: jsrem_def algebra_simps abs_less_iff)
  qed
qed

lemma wrapTurn_range: "0 \<le> wrapTurn t \<and> wrapTurn t < 1"
proof -
  have b: "0 < 2 * pi" by simp
  have "\<bar>jsrem t (2 * pi)\<bar> < 2 * pi" using jsrem_trunc(1)[OF b] .
  then have nn: "0 \<le> jsrem t (2 * pi) + 2 * pi" by linarith
  have "0 \<le> jsrem (jsrem t (2 * pi) + 2 * pi) (2 * pi)" using jsrem_trunc(2)[OF b nn] .
  moreover have "\<bar>jsrem (jsrem t (2 * pi) + 2 * pi) (2 * pi)\<bar> < 2 * pi" using jsrem_trunc(1)[OF b] .
  ultimately show ?thesis unfolding wrapTurn_def by (simp add: abs_less_iff)
qed











subsection \<open>The two readings of the region methods on finite numbers\<close>

text \<open>On finite arguments the operations on JavaScript numbers give the value of
  their exact-real counterparts, up to overflow.\<close>

lemma clampN_Fin: "clampN (Fin v) (Fin a) (Fin b) = Fin (clamp v a b)"
  by (simp add: clampN_def clamp_def max_def min_def)

lemma vlenN_Fin: "vlenN (Vec (Fin a) (Fin b) (Fin c)) = ovf (vlen (Vec a b c))"
  by (simp add: vlenN_def vlen_def hypotN_def hypot_def orZero_def)

lemma wrapTurnN_Fin: "wrapTurnN (Fin t) = Fin (wrapTurn t)"
proof -
  have b: "0 < 2 * pi" by simp
  have p: "2 * pi < 8" using pi_less_4 by simp
  define j where "j = jsrem t (2 * pi)"
  have "\<bar>j\<bar> < 2 * pi" unfolding j_def using jsrem_trunc(1)[OF b] .
  then have "\<bar>j + 2 * pi\<bar> \<le> 1000000" using p by linarith
  then have s: "Fin j + Fin (2 * pi) = Fin (j + 2 * pi)" by (simp add: ovf_small)
  define w where "w = jsrem (j + 2 * pi) (2 * pi)"
  have r: "0 \<le> w / (2 * pi) \<and> w / (2 * pi) < 1"
    using wrapTurn_range[of t] by (simp add: wrapTurn_def w_def j_def)
  then have "\<bar>w / (2 * pi)\<bar> \<le> 1000000" by linarith
  then have d: "Fin w / Fin (2 * pi) = Fin (w / (2 * pi))" using b by (simp add: ovf_small)
  have "wrapTurnN (Fin t) = Fin w / Fin (2 * pi)"
    unfolding wrapTurnN_def w_def j_def[symmetric] using b s by (simp add: j_def)
  also have "\<dots> = Fin (wrapTurn t)" unfolding d by (simp add: wrapTurn_def w_def j_def)
  finally show ?thesis .
qed

lemma allowedHueBandN_center:
  assumes "avgN ts = Fin m"
  shows "center (fst (allowedHueBandN r ts coh h)) = Fin (wrapTurn m)"
    and "meanTheta (snd (allowedHueBandN r ts coh h)) (rid r) = Fin m"
  using assms by (simp_all add: allowedHueBandN_def Let_def wrapTurnN_Fin)

lemma computeFieldN_at_center:
  "computeFieldN (Region i None k nz ob gen (Vec (Fin 80) (Fin 0) (Fin 0)) (Fin 0.008)) (Vec (Fin 80) (Fin 0) (Fin 0))
     = Vec (Fin 0) (Fin 0) (Fin 0)"
  by (simp add: Let_def vsubN_def vnormN_def vscaleN_def vlenN_def hypotN_def orZero_def minus_jsnum_def ovf_small)

section \<open>The claims\<close>

subsection \<open>C1: the checkpoint branch\<close>

text \<open>
  Claim C1: the step completes without raising for every node and context, and in
  the 2% branch it emits a checkpoint token.

  The code does not do this. \<open>n\<close> is the spread copy of line 110, an object literal,
  and \<^verbatim>\<open>snapshot\<close> is a method of the class: whenever the draw of line 233 is below
  0.02 the call \<^verbatim>\<open>n.snapshot()\<close> throws a TypeError (\<open>evolveNode_checkpoint\<close>, for
  every input). Here on a freshly constructed node.
\<close>

theorem checkpoint_call_raises:
  "proto node0 = NodeProto \<and> rCheckpoint checkpointing < 0.02
   \<and> fst (evolveNode node0 ctx0 checkpointing store0) = Inl TypeError"
  by (simp add: evolveNode_checkpoint node0_fields checkpointing_def quiet_def)

subsection \<open>C2: the input node\<close>

text \<open>
  Claim C2: the step never mutates its input; \<open>incubationHistory\<close> and \<open>history\<close> of
  the input are the same before and after.

  The copy of line 110 is shallow: \<open>n.incubationHistory\<close> is the array of the input,
  and line 218 pushes onto it. After one step of a fresh node the input's own
  \<open>incubationHistory\<close> holds the new health value.
\<close>

theorem step_appends_to_input_history:
  "floats store0 (incubationHistory node0) = []
   \<and> floats (snd (evolveNode node0 ctx0 quiet store0)) (incubationHistory node0) = [Fin 0.89775]"
proof -
  have "floats store0 = (\<lambda>a. [])" by (simp add: store0_def construct_store)
  then show ?thesis by (simp add: step_node0 node0_fields)
qed

subsection \<open>C3: velocity against the previous state\<close>

text \<open>
  Claim C3: velocity is the Euclidean distance between the state vector of the
  current state and that of the previous recorded state, and stagnation rises by
  0.05 below 0.001 and falls by 0.04 otherwise.

  \<open>prev\<close> of line 113 is the argument or its copy, never an earlier state, so the code
  measures the current state against itself. A node with velocity \<open>(1, 0, 0)\<close> moves
  by 0.98 in its first step; its second step still reports velocity 0 and raises
  stagnation by 0.05 again, although the state vectors before and after the first
  step are 0.98 apart.
\<close>

theorem velocity_blind_to_previous_state:
  "map_option stateVector (returned (run nodeMoving [(ctx0, quiet)] storeMoving))
     = Some [Fin 0.5, Fin 0, Fin 60, Fin 60, Fin 60, Fin 0.98, Fin 0]
   \<and> stateVector nodeMoving = [Fin 0.5, Fin 0, Fin 60, Fin 60, Fin 60, Fin 0, Fin 0]
   \<and> hypotN (vecDiff [Fin 0.5, Fin 0, Fin 60, Fin 60, Fin 60, Fin 0.98, Fin 0]
                      [Fin 0.5, Fin 0, Fin 60, Fin 60, Fin 60, Fin 0, Fin 0]) = Fin 0.98
   \<and> map_option stagnation (returned (run nodeMoving [(ctx0, quiet)] storeMoving)) = Some (Fin 0.05)
   \<and> map_option (\<lambda>n. velocity (awareness n)) (returned (run nodeMoving [(ctx0, quiet), (ctx0, quiet)] storeMoving))
       = Some (Fin 0)
   \<and> map_option stagnation (returned (run nodeMoving [(ctx0, quiet), (ctx0, quiet)] storeMoving)) = Some (Fin 0.1)"
proof -
  define h1 where "h1 = storeMoving\<lparr>floats := (floats storeMoving)(0 := [Fin 0.89775])\<rparr>"
  define n1 where "n1 = quietResult nodeMoving 1"
  have e1: "evolveNode nodeMoving ctx0 quiet storeMoving = (Inr n1, h1)"
    unfolding n1_def h1_def by (rule step_nodeMoving)
  have r1: "run nodeMoving [(ctx0, quiet)] storeMoving = (Inr n1, h1)"
    by (simp add: e1)
  obtain n2 h2 where b2: "evolveBody n1 ctx0 quiet h1 = (n2, h2)" by (metis surj_pair)
  have e2: "evolveNode n1 ctx0 quiet h1 = (Inr n2, h2)"
    unfolding evolveNode_quiet b2 by simp
  have r2: "run nodeMoving [(ctx0, quiet), (ctx0, quiet)] storeMoving = (Inr n2, h2)"
    by (simp add: e1 e2)
  have sv1: "stateVector n1 = [Fin 0.5, Fin 0, Fin 60, Fin 60, Fin 60, Fin 0.98, Fin 0]"
    by (simp add: n1_def stateVector_def quietResult_def nodeMoving_fields)
  have sv0: "stateVector nodeMoving = [Fin 0.5, Fin 0, Fin 60, Fin 60, Fin 60, Fin 0, Fin 0]"
    by (simp add: stateVector_def nodeMoving_fields zeroVec_def)
  have d: "hypotN (vecDiff [Fin 0.5, Fin 0, Fin 60, Fin 60, Fin 60, Fin 0.98, Fin 0]
                      [Fin 0.5, Fin 0, Fin 60, Fin 60, Fin 60, Fin 0, Fin 0]) = Fin 0.98"
    using sqrt_square_098 by (simp add: hypotN_def minus_jsnum_def ovf_small)
  have st1: "stagnation n1 = Fin 0.05" by (simp add: n1_def quietResult_def)
  have "list_all isFin (stateVector n1)" unfolding sv1 by simp
  then have v0: "velocityOf n1 (spreadCopy n1) h1 = Fin 0" by (rule velocityOf_zero)
  have v2: "velocity (awareness n2) = Fin 0" using evolveBody_facts(4)[OF b2] v0 by simp
  have st2: "stagnation n2 = Fin 0.1"
    unfolding evolveBody_facts(11)[OF b2] v0 st1 by (simp add: clampN_def ovf_small)
  show ?thesis
    unfolding r1 r2 using sv1 sv0 d st1 v2 st2 by (simp add: returned_def)
qed

subsection \<open>C4: learning rate and growth potential\<close>

text \<open>
  Claim C4, as stated for every node and context, fails: the velocity is 0, but the
  learning rate of line 118 is the product of the velocity and the mean contribution,
  and \<open>0 * Infinity\<close> is \<open>NaN\<close>. With the two finite contributions \<open>2 ^ 1023\<close> their sum
  overflows, and a freshly constructed node comes back with \<open>learningRate\<close> and
  \<open>growthPotential\<close> \<open>NaN\<close>.
\<close>

theorem learningRate_NaN_counterexample:
  "list_all isFin (contributions ctxHuge)
   \<and> map_option learningRate (returned (evolveNode node0 ctxHuge quiet store0)) = Some NaN
   \<and> map_option growthPotential (returned (evolveNode node0 ctxHuge quiet store0)) = Some NaN"
proof -
  obtain n hh where b: "evolveBody node0 ctxHuge quiet store0 = (n, hh)" by (metis surj_pair)
  have "returned (evolveNode node0 ctxHuge quiet store0) = Some n"
    unfolding evolveNode_quiet b by (simp add: returned_def)
  then show ?thesis using step_huge(1,2)[OF b] by (simp add: ctxHuge_def)
qed

text \<open>
  Claim C4, amended: whatever the node and the context, the node that \<open>evolveNode\<close>
  returns has \<open>learningRate\<close>, \<open>growthPotential\<close> and the reported velocity each 0 or
  \<open>NaN\<close>, because the velocity measures the state against itself; so neither
  \<open>growthPotential > 1.2\<close> nor \<open>growthPotential > 1.0\<close> holds in a call: the node stays
  in incubation if it was, and is never "happy challenged". The three values are
  exactly 0 when the state vector of the input is finite, the sum of the
  contributions is finite, and the coherence and the stagnation of the input are
  not \<open>NaN\<close>.
\<close>

theorem evolveNode_zero_or_NaN:
  assumes "evolveNode node c d h = (Inr n', h')"
  shows "(learningRate n' = Fin 0 \<or> learningRate n' = NaN)
         \<and> (growthPotential n' = Fin 0 \<or> growthPotential n' = NaN)
         \<and> (velocity (awareness n') = Fin 0 \<or> velocity (awareness n') = NaN)
         \<and> \<not> Fin 1.2 < growthPotential n' \<and> \<not> Fin 1.0 < growthPotential n'
         \<and> incubating n' = incubating node \<and> \<not> isHappyChallenged (awareness n')
         \<and> (list_all isFin (stateVector node) \<and> isFin (sumArrN (contributions c))
              \<and> coherence node \<noteq> NaN \<and> stagnation node \<noteq> NaN
             \<longrightarrow> learningRate n' = Fin 0 \<and> growthPotential n' = Fin 0 \<and> velocity (awareness n') = Fin 0)"
proof -
  have b: "evolveBody node c d h = (n', h')" using assms by (rule evolveNode_Inr(1))
  note f = evolveBody_facts[OF b]
  have vc: "velocityOf node (spreadCopy node) h = Fin 0 \<or> velocityOf node (spreadCopy node) h = NaN"
    by (rule velocityOf_cases)
  have lr: "learningRate n' = Fin 0 \<or> learningRate n' = NaN"
    unfolding f(2) using vc by (rule dynamics_cases(1))
  have gp: "growthPotential n' = Fin 0 \<or> growthPotential n' = NaN"
    unfolding f(3) using vc by (rule dynamics_cases(2))
  have v: "velocity (awareness n') = Fin 0 \<or> velocity (awareness n') = NaN"
    unfolding f(4) by (rule vc)
  have g12: "\<not> Fin 1.2 < growthPotential n'" using gp by (rule zeroish_not_gt) simp
  have g10: "\<not> Fin 1.0 < growthPotential n'" using gp by (rule zeroish_not_gt) simp
  have z: "learningRate n' = Fin 0 \<and> growthPotential n' = Fin 0 \<and> velocity (awareness n') = Fin 0"
    if "list_all isFin (stateVector node)" "isFin (sumArrN (contributions c))"
       "coherence node \<noteq> NaN" "stagnation node \<noteq> NaN"
  proof -
    have v0: "velocityOf node (spreadCopy node) h = Fin 0" using that(1) by (rule velocityOf_zero)
    have c: "coherence (spreadCopy node) \<noteq> NaN" "stagnation (spreadCopy node) \<noteq> NaN"
      using that(3,4) by (simp_all add: spreadCopy_def)
    show ?thesis
      unfolding f(2) f(3) f(4) v0
      using dynamics_zero[OF that(2) c] by simp
  qed
  show ?thesis using lr gp v g12 g10 f(5) f(6) z by blast
qed

theorem evolveNode_zero_or_NaN_witness:
  "evolveNode node0 ctx0 quiet store0 = (Inr (quietResult node0 0), store0\<lparr>floats := (floats store0)(0 := [Fin 0.89775])\<rparr>)
   \<and> list_all isFin (stateVector node0) \<and> isFin (sumArrN (contributions ctx0))
   \<and> coherence node0 \<noteq> NaN \<and> stagnation node0 \<noteq> NaN
   \<and> learningRate (quietResult node0 0) = Fin 0 \<and> growthPotential (quietResult node0 0) = Fin 0
   \<and> velocity (awareness (quietResult node0 0)) = Fin 0
   \<and> incubating (quietResult node0 0) = incubating node0"
proof -
  have s: "isFin (sumArrN (contributions ctx0))" by (simp add: ctx0_sel sumArrN_def ovf_small)
  have c: "coherence node0 \<noteq> NaN" "stagnation node0 \<noteq> NaN" by (simp_all add: node0_fields)
  show ?thesis
    using evolveNode_zero_or_NaN[OF step_node0] step_node0 node0_finite s c by simp
qed

subsection \<open>C5: the bounds\<close>




subsection \<open>C6: incubation does not come back\<close>

text \<open>
  Claim C6: once \<open>incubating\<close> is false it is false after every later step, whatever
  the contexts and the draws.
\<close>

theorem incubating_stays_false:
  assumes "run node steps h = (Inr n', h')" and "\<not> incubating node"
  shows "\<not> incubating n'"
  using assms
proof (induction steps arbitrary: node h)
  case Nil
  then show ?case by simp
next
  case (Cons s rest)
  obtain c d where s: "s = (c, d)" by (cases s)
  from Cons.prems(1) obtain n1 h1 where
    st: "evolveNode node c d h = (Inr n1, h1)" and rr: "run n1 rest h1 = (Inr n', h')"
    by (auto simp: s split: prod.splits sum.splits)
  have "incubating n1 = incubating node"
    using evolveBody_facts(6)[OF evolveNode_Inr(1)[OF st]] .
  with Cons.prems(2) have "\<not> incubating n1" by simp
  from Cons.IH[OF rr this] show ?case .
qed

theorem incubating_stays_false_witness:
  "\<not> incubating nodeHatched
   \<and> map_option incubating (returned (run nodeHatched [(ctx0, quiet)] storeHatched)) = Some False
   \<and> map_option incubating (returned (run nodeHatched [(ctx0, quiet), (ctx0, quiet)] storeHatched)) = Some False"
proof -
  define h1 where "h1 = storeHatched\<lparr>floats := (floats storeHatched)(0 := [Fin 0.89775])\<rparr>"
  define n1 where "n1 = quietResult nodeHatched 0"
  have e1: "evolveNode nodeHatched ctx0 quiet storeHatched = (Inr n1, h1)"
    unfolding n1_def h1_def by (rule step_nodeHatched)
  have r1: "run nodeHatched [(ctx0, quiet)] storeHatched = (Inr n1, h1)"
    by (simp add: e1)
  obtain n2 h2 where b2: "evolveBody n1 ctx0 quiet h1 = (n2, h2)" by (metis surj_pair)
  have e2: "evolveNode n1 ctx0 quiet h1 = (Inr n2, h2)"
    unfolding evolveNode_quiet b2 by simp
  have r2: "run nodeHatched [(ctx0, quiet), (ctx0, quiet)] storeHatched = (Inr n2, h2)"
    by (simp add: e1 e2)
  have i: "\<not> incubating nodeHatched" by (simp add: nodeHatched_fields)
  show ?thesis
    using incubating_stays_false[OF r1 i] incubating_stays_false[OF r2 i] i
    unfolding r1 r2 by (simp add: returned_def)
qed

subsection \<open>C7: effectiveKappa\<close>

text \<open>
  Claim C7, as stated, fails: the weight 1 goes to the root of the chain (the region
  without parent, line 50), not to the region itself, and the root does not get
  \<open>0.88 ^ (g - 0)\<close>. For a child of generation 1 with kappa 0.3 under a root with
  kappa 0.1 the code returns 0.2; the weights of the claim give 97/470.
\<close>

theorem effectiveKappa_root_weight_counterexample:
  "effectiveKappa childR (generation childR) = 1 / 5
   \<and> effectiveKappa_spec childR (generation childR) = 97 / 470
   \<and> effectiveKappa childR (generation childR) \<noteq> effectiveKappa_spec childR (generation childR)"
  by (simp add: effectiveKappa_def effectiveKappa_spec_def specWeights_def childR_def rootR_def Let_def)

text \<open>
  Claim C7, amended: \<open>effectiveKappa\<close> is the weighted mean of \<open>kappa\<close> over the chain
  from the region to the root, where a region with a parent has the weight
  \<open>0.88 ^ max(0, g - generation)\<close> and the root has the weight 1. The total weight is
  positive, so the fallback is never taken. For a region without parent the result
  is its own \<open>kappa\<close>.
\<close>

theorem effectiveKappa_weighted_mean:
  "effectiveKappa r g = (\<Sum>c\<leftarrow>chain r. walkWeight g c * kappa c) / (\<Sum>c\<leftarrow>chain r. walkWeight g c)
   \<and> 0 < (\<Sum>c\<leftarrow>chain r. walkWeight g c)
   \<and> (parent r = None \<longrightarrow> effectiveKappa r g = kappa r)"
proof -
  have pos: "0 < (\<Sum>c\<leftarrow>chain r. walkWeight g c)" by (rule chain_weight_pos)
  have eq: "effectiveKappa r g = (\<Sum>c\<leftarrow>chain r. walkWeight g c * kappa c) / (\<Sum>c\<leftarrow>chain r. walkWeight g c)"
    using pos by (simp add: effectiveKappa_def kappaWalk_chain)
  have "effectiveKappa r g = kappa r" if "parent r = None"
    using that unfolding eq by (cases r) (simp add: walkWeight_def)
  with pos eq show ?thesis by simp
qed

theorem effectiveKappa_weighted_mean_witness:
  "parent rootR = None \<and> effectiveKappa rootR 0 = kappa rootR \<and> kappa rootR = 0.1"
  using effectiveKappa_weighted_mean[of rootR 0] by (simp add: rootR_def)

subsection \<open>C8: allowedHueBand\<close>



subsection \<open>C10: the field at its centre\<close>




end
